theory Spec2Isabelle
  imports Main "HOL-Library.AList"
begin

section \<open>JavaScript values\<close>

text \<open>
  The configuration, the search results and the theme registry of the SmartSearch UI
  library are plain JavaScript values. They are modelled by the datatype below: objects
  are association lists from the names of their own properties to values, in insertion
  order, with pairwise different names; functions are opaque and carry their declared
  parameter count and their source text (what \<^verbatim>\<open>length\<close> and \<^verbatim>\<open>toString\<close> read).
  Numbers are the integers that JavaScript holds exactly, of magnitude below \<open>2 ^ 53\<close>.

  An object literal also has the members it inherits from \<^verbatim>\<open>Object.prototype\<close>
  (\<^verbatim>\<open>constructor\<close>, \<^verbatim>\<open>toString\<close>, ...): a read and the operator \<^verbatim>\<open>in\<close> find them under
  their names, see \<open>readProperty\<close> and \<open>hasProperty\<close> below. What is outside the model: an
  own property named \<^verbatim>\<open>__proto__\<close>, whose assignment changes the prototype; the order in
  which JavaScript enumerates integer-like property names, which come first there and keep
  their place here; and the inherited members of arrays, strings and functions, which are
  read for their own properties only.
\<close>

datatype jsval =
    JUndef
  | JNull
  | JBool bool
  | JNum int
  | JStr string
  | JArr "jsval list"
  | JObj "(string \<times> jsval) list"
  | JFun nat string

text \<open>Truthiness, as \<^verbatim>\<open>if (value)\<close> and \<^verbatim>\<open>!value\<close> see it.\<close>

fun truthy :: "jsval \<Rightarrow> bool" where
  "truthy JUndef = False"
| "truthy JNull = False"
| "truthy (JBool b) = b"
| "truthy (JNum n) = (n \<noteq> 0)"
| "truthy (JStr s) = (s \<noteq> [])"
| "truthy (JArr xs) = True"
| "truthy (JObj kvs) = True"
| "truthy (JFun n src) = True"

text \<open>\<^verbatim>\<open>a || b\<close> on values.\<close>

definition js_or :: "jsval \<Rightarrow> jsval \<Rightarrow> jsval" where
  "js_or a b = (if truthy a then a else b)"

fun isArray :: "jsval \<Rightarrow> bool" where
  "isArray (JArr xs) = True"
| "isArray v = False"

subsection \<open>Conversion to strings and property keys\<close>

definition digitChar :: "nat \<Rightarrow> char" where
  "digitChar d = ''0123456789'' ! d"

fun decimal :: "nat \<Rightarrow> string" where
  "decimal n = (if 10 \<le> n then decimal (n div 10) else []) @ [digitChar (n mod 10)]"

text \<open>
  \<^verbatim>\<open>String(n)\<close> for a number of the model: its decimal digits. (JavaScript turns to the
  exponent form from \<open>10 ^ 21\<close> on, beyond the numbers of the model.)
\<close>

definition numberToString :: "int \<Rightarrow> string" where
  "numberToString i = (if 0 \<le> i then decimal (nat i) else CHR ''-'' # decimal (nat (- i)))"

fun join :: "string \<Rightarrow> string list \<Rightarrow> string" where
  "join sep [] = []"
| "join sep [x] = x"
| "join sep (x # y # ys) = x @ sep @ join sep (y # ys)"

text \<open>
  \<^verbatim>\<open>String(value)\<close>, which template literals and computed property names apply. An array
  joins its elements with commas, \<^verbatim>\<open>null\<close> and \<^verbatim>\<open>undefined\<close> elements giving the empty string.
\<close>

fun toString :: "jsval \<Rightarrow> string" where
  "toString JUndef = ''undefined''"
| "toString JNull = ''null''"
| "toString (JBool b) = (if b then ''true'' else ''false'')"
| "toString (JNum n) = numberToString n"
| "toString (JStr s) = s"
| "toString (JArr xs) =
     join '','' (map (\<lambda>x. if x = JUndef \<or> x = JNull then [] else toString x) xs)"
| "toString (JObj kvs) = ''[object Object]''"
| "toString (JFun n src) = src"

subsection \<open>Property reads\<close>

datatype js_error =
    TypeError
  | RangeError
  | Error string

text \<open>The entries \<^verbatim>\<open>0\<close>, \<^verbatim>\<open>1\<close>, ... of an array or of the characters of a string.\<close>

definition indexed :: "jsval list \<Rightarrow> (string \<times> jsval) list" where
  "indexed xs = zip (map decimal [0 ..< length xs]) xs"

definition chars_of :: "string \<Rightarrow> jsval list" where
  "chars_of s = map (\<lambda>c. JStr [c]) s"

text \<open>
  The members that every object literal inherits from \<^verbatim>\<open>Object.prototype\<close>: eleven
  built-in functions, with their parameter counts and the source text the engine prints for
  them, and \<^verbatim>\<open>__proto__\<close>, which reads as the prototype, an object without enumerable
  properties of its own.
\<close>

definition nativeCode :: "string \<Rightarrow> string" where
  "nativeCode name = ''function '' @ name @ ''() { [native code] }''"

definition objectPrototype :: "(string \<times> jsval) list" where
  "objectPrototype =
     [(''constructor'', JFun 1 (nativeCode ''Object'')),
      (''__defineGetter__'', JFun 2 (nativeCode ''__defineGetter__'')),
      (''__defineSetter__'', JFun 2 (nativeCode ''__defineSetter__'')),
      (''hasOwnProperty'', JFun 1 (nativeCode ''hasOwnProperty'')),
      (''__lookupGetter__'', JFun 1 (nativeCode ''__lookupGetter__'')),
      (''__lookupSetter__'', JFun 1 (nativeCode ''__lookupSetter__'')),
      (''isPrototypeOf'', JFun 1 (nativeCode ''isPrototypeOf'')),
      (''propertyIsEnumerable'', JFun 1 (nativeCode ''propertyIsEnumerable'')),
      (''toString'', JFun 0 (nativeCode ''toString'')),
      (''valueOf'', JFun 0 (nativeCode ''valueOf'')),
      (''__proto__'', JObj []),
      (''toLocaleString'', JFun 0 (nativeCode ''toLocaleString''))]"

definition inheritedNames :: "string list" where
  "inheritedNames = map fst objectPrototype"

text \<open>
  \<^verbatim>\<open>value[key]\<close> and \<^verbatim>\<open>value.key\<close>: a read on \<^verbatim>\<open>null\<close> or \<^verbatim>\<open>undefined\<close> throws a
  TypeError, a property that is not there reads as \<^verbatim>\<open>undefined\<close>. \<open>lookup\<close> reads an own
  property; \<open>readProperty\<close> is the read \<^verbatim>\<open>object[key]\<close> on an object literal, which
  falls back on the inherited member of that name, and \<open>hasProperty\<close> is \<^verbatim>\<open>key in object\<close>.
\<close>

fun lookup :: "(string \<times> jsval) list \<Rightarrow> string \<Rightarrow> jsval" where
  "lookup kvs k = (case map_of kvs k of None \<Rightarrow> JUndef | Some v \<Rightarrow> v)"

definition readProperty :: "(string \<times> jsval) list \<Rightarrow> string \<Rightarrow> jsval" where
  "readProperty kvs k = (case map_of kvs k of None \<Rightarrow> lookup objectPrototype k | Some v \<Rightarrow> v)"

definition hasProperty :: "(string \<times> jsval) list \<Rightarrow> string \<Rightarrow> bool" where
  "hasProperty kvs k = (map_of kvs k \<noteq> None \<or> k \<in> set inheritedNames)"

fun getProp :: "jsval \<Rightarrow> string \<Rightarrow> js_error + jsval" where
  "getProp JUndef k = Inl TypeError"
| "getProp JNull k = Inl TypeError"
| "getProp (JObj kvs) k = Inr (readProperty kvs k)"
| "getProp (JArr xs) k =
     Inr (if k = ''length'' then JNum (int (length xs)) else lookup (indexed xs) k)"
| "getProp (JStr s) k =
     Inr (if k = ''length'' then JNum (int (length s)) else lookup (indexed (chars_of s)) k)"
| "getProp (JFun n src) k = Inr (if k = ''length'' then JNum (int n) else JUndef)"
| "getProp (JBool b) k = Inr JUndef"
| "getProp (JNum n) k = Inr JUndef"

text \<open>A chain of reads \<^verbatim>\<open>value.a.b.c\<close>, stopping at the first one that throws.\<close>

fun getPath :: "jsval \<Rightarrow> string list \<Rightarrow> js_error + jsval" where
  "getPath v [] = Inr v"
| "getPath v (k # ks) = (case getProp v k of Inl e \<Rightarrow> Inl e | Inr w \<Rightarrow> getPath w ks)"

text \<open>Sequencing of steps that may throw: the first error ends the evaluation.\<close>

definition bindE :: "js_error + 'a \<Rightarrow> ('a \<Rightarrow> js_error + 'b) \<Rightarrow> js_error + 'b" where
  "bindE m f = (case m of Inl e \<Rightarrow> Inl e | Inr x \<Rightarrow> f x)"

lemma bindE_Inr [simp]: "bindE (Inr x) f = f x"
  by (simp add: bindE_def)

lemma bindE_Inl [simp]: "bindE (Inl e) f = Inl e"
  by (simp add: bindE_def)

lemma getPath_append:
  "getPath v (ks @ ks') = (case getPath v ks of Inl e \<Rightarrow> Inl e | Inr w \<Rightarrow> getPath w ks')"
  by (induction ks arbitrary: v) (auto split: sum.splits)

lemma getProp_present: "v \<noteq> JUndef \<Longrightarrow> v \<noteq> JNull \<Longrightarrow> \<exists>w. getProp v k = Inr w"
  by (cases v) auto

text \<open>
  A name that no object inherits is read from the own properties alone, and a truthy own
  property is what a read finds, whatever its name.
\<close>

lemma inheritedNames_eq:
  "inheritedNames =
     [''constructor'', ''__defineGetter__'', ''__defineSetter__'', ''hasOwnProperty'',
      ''__lookupGetter__'', ''__lookupSetter__'', ''isPrototypeOf'', ''propertyIsEnumerable'',
      ''toString'', ''valueOf'', ''__proto__'', ''toLocaleString'']"
  by (simp add: inheritedNames_def objectPrototype_def)

lemma lookup_objectPrototype:
  assumes "k \<notin> set inheritedNames"
  shows "lookup objectPrototype k = JUndef"
proof -
  from assms have "map_of objectPrototype k = None"
    by (simp add: inheritedNames_def map_of_eq_None_iff)
  then show ?thesis by simp
qed

lemma readProperty_own_name:
  assumes "k \<notin> set inheritedNames"
  shows "readProperty kvs k = lookup kvs k"
proof -
  have "lookup objectPrototype k = JUndef"
    using assms by (rule lookup_objectPrototype)
  then show ?thesis
    by (simp add: readProperty_def split: option.splits)
qed

lemma hasProperty_own_name: "k \<notin> set inheritedNames \<Longrightarrow> hasProperty kvs k = (map_of kvs k \<noteq> None)"
  by (simp add: hasProperty_def)

lemma readProperty_truthy_own: "truthy (lookup kvs k) \<Longrightarrow> readProperty kvs k = lookup kvs k"
  by (auto simp: readProperty_def split: option.splits)


section \<open>Configuration merge\<close>

text \<open>\<^verbatim>\<open>_isObject(item)\<close>: a non-null object that is not an array.\<close>

fun isObject :: "jsval \<Rightarrow> bool" where
  "isObject (JObj kvs) = True"
| "isObject v = False"

text \<open>
  \<^verbatim>\<open>Object.assign({}, target)\<close>: the own enumerable properties of the target, none for
  \<^verbatim>\<open>null\<close>, \<^verbatim>\<open>undefined\<close>, numbers, booleans and functions.
\<close>

fun assign_empty :: "jsval \<Rightarrow> (string \<times> jsval) list" where
  "assign_empty (JObj kvs) = kvs"
| "assign_empty (JArr xs) = indexed xs"
| "assign_empty (JStr s) = indexed (chars_of s)"
| "assign_empty v = []"

text \<open>
  \<^verbatim>\<open>_deepMerge(target, source)\<close>. \<open>mergeKeys\<close> is the \<^verbatim>\<open>forEach\<close> over the keys of the
  source, threading \<^verbatim>\<open>output\<close>; \<^verbatim>\<open>Object.assign(output, {[key]: v})\<close> and
  \<^verbatim>\<open>output[key] = v\<close> are both \<open>AList.update key v output\<close>. The test
  \<^verbatim>\<open>key in target\<close> and the read \<^verbatim>\<open>target[key]\<close> see the inherited members of the target.
\<close>

function deepMerge :: "jsval \<Rightarrow> jsval \<Rightarrow> jsval"
  and mergeKeys :: "(string \<times> jsval) list \<Rightarrow> (string \<times> jsval) list \<Rightarrow>
      (string \<times> jsval) list \<Rightarrow> (string \<times> jsval) list"
where
  "deepMerge target source =
     (if isObject target \<and> isObject source
      then (case (target, source) of
              (JObj t, JObj s) \<Rightarrow> JObj (mergeKeys t s (assign_empty target))
            | _ \<Rightarrow> JObj (assign_empty target))
      else JObj (assign_empty target))"
| "mergeKeys t [] output = output"
| "mergeKeys t ((key, v) # rest) output =
     mergeKeys t rest
       (if isObject v
        then (if \<not> hasProperty t key then AList.update key v output
              else AList.update key (deepMerge (readProperty t key) v) output)
        else AList.update key v output)"
  by pat_completeness auto
termination
  by (relation "measure (\<lambda>x. case x of
        Inl (target, source) \<Rightarrow> size source
      | Inr (t, s, output) \<Rightarrow> size_list (size_prod (\<lambda>_. 0) size) s)") auto

text \<open>
  \<^verbatim>\<open>_mergeConfig(userConfig)\<close>: the library defaults, with \<^verbatim>\<open>null\<close> for every value the
  project has to supply. The two icons are written as their UTF-8 bytes.
\<close>

definition defaults :: jsval where
  "defaults = JObj
    [(''server'', JObj
        [(''defaultURL'', JNull),
         (''defaultPreparedSearch'', JNull),
         (''localStorageKeys'', JObj
            [(''server'', JStr ''smartsearch-server''),
             (''preparedSearch'', JStr ''smartsearch-prepared-search'')])]),
     (''facets'', JObj [(''displayNames'', JObj [])]),
     (''dateFilter'', JObj
        [(''enabled'', JBool True),
         (''fieldName'', JNull),
         (''solrFilterParam'', JStr ''fq'')]),
     (''resultFields'', JObj
        [(''title'', JObj [(''field'', JNull), (''fallback'', JStr ''Untitled'')]),
         (''description'', JObj
            [(''fields'', JArr []),
             (''fallback'', JStr ''No description available''),
             (''useHighlighting'', JBool True)]),
         (''link'', JObj [(''fields'', JArr []), (''fallback'', JStr ''#'')]),
         (''date'', JObj
            [(''field'', JNull),
             (''format'', JObj
                [(''year'', JStr ''numeric''),
                 (''month'', JStr ''short''),
                 (''day'', JStr ''numeric'')]),
             (''locale'', JStr ''en''),
             (''fallback'', JStr ''No date'')]),
         (''language'', JObj [(''field'', JNull), (''default'', JStr ''EN'')])]),
     (''features'', JObj
        [(''settingsModal'', JBool True),
         (''fieldInspector'', JBool True),
         (''dateFilter'', JBool True),
         (''instantFiltering'', JBool True),
         (''didYouMean'', JBool True),
         (''smoothScrolling'', JBool True)]),
     (''ui'', JObj
        [(''resultsPerPage'', JNum 10),
         (''maxPaginationButtons'', JNum 5),
         (''showResultCount'', JBool True),
         (''emptyStateMessage'', JStr ''Enter a search query to get started''),
         (''emptyStateIcon'', JStr [CHR 0xF0, CHR 0x9F, CHR 0x94, CHR 0x8D]),
         (''errorStateIcon'', JStr [CHR 0xE2, CHR 0x9A, CHR 0xA0, CHR 0xEF, CHR 0xB8, CHR 0x8F])]),
     (''hooks'', JObj
        [(''beforeSearch'', JNull),
         (''afterSearch'', JNull),
         (''onResultClick'', JNull),
         (''beforeRender'', JNull),
         (''afterRender'', JNull)]),
     (''resultTemplate'', JNull)]"

definition mergeConfig :: "jsval \<Rightarrow> jsval" where
  "mergeConfig userConfig = deepMerge defaults userConfig"

text \<open>
  A user configuration that supplies every required value, with the field names of the
  project's configuration file; the examples below run on it.
\<close>

definition sampleConfig :: jsval where
  "sampleConfig = JObj
    [(''server'', JObj
        [(''defaultURL'', JStr ''https://search.example''),
         (''defaultPreparedSearch'', JStr ''Docs'')]),
     (''theme'', JObj
        [(''default'', JStr ''default''),
         (''localStorageKey'', JStr ''smartsearch-theme'')]),
     (''dateFilter'', JObj
        [(''enabled'', JBool True),
         (''fieldName'', JStr ''meta_date''),
         (''solrFilterParam'', JStr ''fq'')]),
     (''resultFields'', JObj
        [(''title'', JObj [(''field'', JStr ''title''), (''fallback'', JStr ''Untitled'')]),
         (''description'', JObj
            [(''fields'', JArr [JStr ''content'', JStr ''description'', JStr ''text'']),
             (''fallback'', JStr ''No description available''),
             (''useHighlighting'', JBool True)]),
         (''link'', JObj [(''fields'', JArr [JStr ''link'', JStr ''url'']), (''fallback'', JStr ''#'')]),
         (''date'', JObj [(''field'', JStr ''meta_date'')]),
         (''language'', JObj [(''field'', JStr ''language_keyword''), (''default'', JStr ''EN'')])])]"

subsection \<open>What the merge keeps\<close>

text \<open>
  The value of a key after the loop over the source's entries: a key the source does not
  have keeps what \<^verbatim>\<open>output\<close> held; a key it has takes the source's value, unless that
  value is an object and the target has the key too, where the recursive merge of the two
  values is stored.
\<close>

lemma mergeKeys_map_of:
  "distinct (map fst s) \<Longrightarrow>
   map_of (mergeKeys t s out) k =
     (case map_of s k of
        None \<Rightarrow> map_of out k
      | Some v \<Rightarrow> Some (if isObject v \<and> hasProperty t k
                        then deepMerge (readProperty t k) v
                        else v))"
proof (induction s arbitrary: out)
  case Nil
  then show ?case by simp
next
  case (Cons p s)
  obtain key v where p: "p = (key, v)" by (cases p)
  from Cons.prems p have d: "distinct (map fst s)" and nk: "map_of s key = None"
    by (auto simp: map_of_eq_None_iff)
  show ?case
    using Cons.IH [OF d] nk
    by (auto simp add: p update_conv' simp del: deepMerge.simps split: option.splits)
qed

lemma deepMerge_objects:
  "distinct (map fst s) \<Longrightarrow>
   getProp (deepMerge (JObj t) (JObj s)) k =
     Inr (case map_of s k of
            None \<Rightarrow> readProperty t k
          | Some v \<Rightarrow> if isObject v \<and> hasProperty t k
                      then deepMerge (readProperty t k) v
                      else v)"
  using mergeKeys_map_of [of s t t k]
  by (simp add: readProperty_def del: mergeKeys.simps split: option.splits)

text \<open>
  A target that is not an object is copied by \<^verbatim>\<open>Object.assign({}, target)\<close> and the source
  is not looked at: the merge of \<^verbatim>\<open>null\<close> with any source is the empty object.
\<close>

lemma deepMerge_null_target: "deepMerge JNull source = JObj []"
  by simp

text \<open>
  C1. The merge is meant to take the user's value for every key that is not an object on
  both sides. Where the defaults hold a key with a value that is not an object (every
  \<^verbatim>\<open>null\<close> placeholder of the defaults) and the user supplies an object for it, the code
  takes the branch \<^verbatim>\<open>output[key] = this._deepMerge(target[key], source[key])\<close>, whose
  guard fails on the target, and stores a copy of the default instead: the user's object is
  lost. With defaults \<^verbatim>\<open>{a: null, b: 1}\<close> and user configuration \<^verbatim>\<open>{a: {x: 2}}\<close> the
  result is \<^verbatim>\<open>{a: {}, b: 1}\<close>; with the library defaults and the user configuration
  \<^verbatim>\<open>{resultTemplate: {layout: 'compact'}}\<close> the merged \<^verbatim>\<open>resultTemplate\<close> is \<^verbatim>\<open>{}\<close>. The
  same user object over a key the defaults do not have is kept whole.
\<close>

theorem deepMerge_loses_object_over_non_object_default:
  "deepMerge (JObj [(''a'', JNull), (''b'', JNum 1)]) (JObj [(''a'', JObj [(''x'', JNum 2)])])
     = JObj [(''a'', JObj []), (''b'', JNum 1)]
   \<and> getProp (mergeConfig (JObj [(''resultTemplate'', JObj [(''layout'', JStr ''compact'')])]))
       ''resultTemplate'' = Inr (JObj [])
   \<and> deepMerge (JObj [(''b'', JNum 1)]) (JObj [(''a'', JObj [(''x'', JNum 2)])])
     = JObj [(''b'', JNum 1), (''a'', JObj [(''x'', JNum 2)])]"
  by (simp add: mergeConfig_def defaults_def hasProperty_def readProperty_def inheritedNames_eq)

section \<open>Configuration validation\<close>

text \<open>
  \<^verbatim>\<open>_validateConfig()\<close> collects the names of the missing values in \<^verbatim>\<open>required\<close> and
  throws one error that lists them all. \<open>push_if c p required\<close> is
  \<^verbatim>\<open>if (c) required.push(p)\<close>; \<open>emptyOrMissing fields\<close> is
  \<^verbatim>\<open>!fields || fields.length === 0\<close>.
\<close>

definition push_if :: "bool \<Rightarrow> string \<Rightarrow> string list \<Rightarrow> string list" where
  "push_if c p required = (if c then required @ [p] else required)"

definition emptyOrMissing :: "jsval \<Rightarrow> js_error + bool" where
  "emptyOrMissing fields =
     (if \<not> truthy fields then Inr True
      else bindE (getProp fields ''length'') (\<lambda>n. Inr (n = JNum 0)))"

definition missingMessage :: "string list \<Rightarrow> string" where
  "missingMessage required =
     ''SmartSearchUI: Missing required configuration:'' @ [CHR 0x0A] @ ''  - '' @
     join ([CHR 0x0A] @ ''  - '') required @ [CHR 0x0A, CHR 0x0A] @
     ''Please provide these values in config/project.config.js''"

definition validateConfig :: "jsval \<Rightarrow> js_error + unit" where
  "validateConfig config =
     bindE (getPath config [''server'', ''defaultURL'']) (\<lambda>url.
     bindE (Inr (push_if (\<not> truthy url) ''server.defaultURL'' [])) (\<lambda>r1.
     bindE (getPath config [''server'', ''defaultPreparedSearch'']) (\<lambda>ps.
     bindE (Inr (push_if (\<not> truthy ps) ''server.defaultPreparedSearch'' r1)) (\<lambda>r2.
     bindE (getPath config [''resultFields'', ''title'', ''field'']) (\<lambda>tf.
     bindE (Inr (push_if (\<not> truthy tf) ''resultFields.title.field'' r2)) (\<lambda>r3.
     bindE (getPath config [''resultFields'', ''description'', ''fields'']) (\<lambda>df.
     bindE (emptyOrMissing df) (\<lambda>dm.
     bindE (Inr (push_if dm ''resultFields.description.fields'' r3)) (\<lambda>r4.
     bindE (getPath config [''resultFields'', ''link'', ''fields'']) (\<lambda>lf.
     bindE (emptyOrMissing lf) (\<lambda>lm.
     bindE (Inr (push_if lm ''resultFields.link.fields'' r4)) (\<lambda>r5.
     bindE (getPath config [''dateFilter'', ''enabled'']) (\<lambda>en.
     bindE (if truthy en
            then bindE (getPath config [''dateFilter'', ''fieldName'']) (\<lambda>fn. Inr (\<not> truthy fn))
            else Inr False) (\<lambda>fm.
     bindE (Inr (push_if fm ''dateFilter.fieldName (required when dateFilter.enabled = true)'' r5)) (\<lambda>required.
       if required \<noteq> [] then Inl (Error (missingMessage required)) else Inr ())))))))))))))))"


subsection \<open>The checklist, as the specification words it\<close>

text \<open>
  The required leaves and when each one is missing: a value is missing when it is falsy, a
  field list when it is falsy or has length 0, the date field name only while date
  filtering is enabled. \<open>missingPaths\<close> are the names of the missing ones, in the order of
  the checklist. The groups that hold the leaves are \<open>present\<close> when reading them gives a
  value other than \<^verbatim>\<open>null\<close> and \<^verbatim>\<open>undefined\<close>; the defaults make them so unless the user
  configuration replaces a whole group by such a value.
\<close>

definition leaf :: "jsval \<Rightarrow> string list \<Rightarrow> jsval" where
  "leaf config ks = (case getPath config ks of Inr v \<Rightarrow> v | Inl e \<Rightarrow> JUndef)"

definition emptyList :: "jsval \<Rightarrow> bool" where
  "emptyList v = (\<not> truthy v \<or> getProp v ''length'' = Inr (JNum 0))"

definition checklist :: "jsval \<Rightarrow> (string \<times> bool) list" where
  "checklist config =
     [(''server.defaultURL'', \<not> truthy (leaf config [''server'', ''defaultURL''])),
      (''server.defaultPreparedSearch'',
         \<not> truthy (leaf config [''server'', ''defaultPreparedSearch''])),
      (''resultFields.title.field'',
         \<not> truthy (leaf config [''resultFields'', ''title'', ''field''])),
      (''resultFields.description.fields'',
         emptyList (leaf config [''resultFields'', ''description'', ''fields''])),
      (''resultFields.link.fields'',
         emptyList (leaf config [''resultFields'', ''link'', ''fields''])),
      (''dateFilter.fieldName (required when dateFilter.enabled = true)'',
         truthy (leaf config [''dateFilter'', ''enabled'']) \<and>
         \<not> truthy (leaf config [''dateFilter'', ''fieldName'']))]"

definition missingPaths :: "jsval \<Rightarrow> string list" where
  "missingPaths config = map fst (filter snd (checklist config))"

definition present :: "jsval \<Rightarrow> string list \<Rightarrow> bool" where
  "present config ks =
     (case getPath config ks of Inr v \<Rightarrow> v \<noteq> JUndef \<and> v \<noteq> JNull | Inl e \<Rightarrow> False)"

definition groupsPresent :: "jsval \<Rightarrow> bool" where
  "groupsPresent config =
     (present config [''server''] \<and>
      present config [''resultFields'', ''title''] \<and>
      present config [''resultFields'', ''description''] \<and>
      present config [''resultFields'', ''link''] \<and>
      present config [''dateFilter''])"

lemma getPath_leaf:
  assumes "present config ks"
  shows "getPath config (ks @ [k]) = Inr (leaf config (ks @ [k]))"
proof -
  from assms obtain v where v: "getPath config ks = Inr v" "v \<noteq> JUndef" "v \<noteq> JNull"
    by (auto simp: present_def split: sum.splits)
  from getProp_present [OF v(2,3)] obtain w where "getProp v k = Inr w" by blast
  with v(1) show ?thesis
    by (simp add: leaf_def getPath_append)
qed

lemma emptyOrMissing_emptyList: "emptyOrMissing v = Inr (emptyList v)"
  by (cases v) (auto simp: emptyOrMissing_def emptyList_def)

lemma foldl_push_if:
  "foldl (\<lambda>r (p, b). push_if b p r) r xs = r @ map fst (filter snd xs)"
  by (induction xs arbitrary: r) (auto simp: push_if_def)

text \<open>
  Joining the collected names with a line break and the bullet between them, behind a first
  bullet, gives every name a line of its own: the message is a heading, then every collected
  name on its line, then an empty line and the hint where to supply the values.
\<close>

lemma join_bullets:
  "ps \<noteq> [] \<Longrightarrow>
   ''  - '' @ join ([CHR 0x0A] @ ''  - '') ps @ [CHR 0x0A]
     = concat (map (\<lambda>p. ''  - '' @ p @ [CHR 0x0A]) ps)"
proof (induction ps)
  case Nil
  then show ?case by simp
next
  case (Cons p ps)
  show ?case
  proof (cases ps)
    case Nil
    then show ?thesis by simp
  next
    case (Cons q qs)
    with Cons.IH show ?thesis by simp
  qed
qed

lemma missingMessage_lines:
  "ps \<noteq> [] \<Longrightarrow>
   missingMessage ps =
     ''SmartSearchUI: Missing required configuration:'' @ [CHR 0x0A] @
     concat (map (\<lambda>p. ''  - '' @ p @ [CHR 0x0A]) ps) @ [CHR 0x0A] @
     ''Please provide these values in config/project.config.js''"
  using join_bullets [of ps] by (simp add: missingMessage_def)

lemma validateConfig_checklist:
  assumes "groupsPresent config"
  shows "validateConfig config =
           (if missingPaths config = [] then Inr ()
            else Inl (Error (missingMessage (missingPaths config))))"
proof -
  have p1: "getPath config [''server'', ''defaultURL''] = Inr (leaf config [''server'', ''defaultURL''])"
    using getPath_leaf [of config "[''server'']" "''defaultURL''"] assms
    by (simp add: groupsPresent_def)
  have p2: "getPath config [''server'', ''defaultPreparedSearch'']
              = Inr (leaf config [''server'', ''defaultPreparedSearch''])"
    using getPath_leaf [of config "[''server'']" "''defaultPreparedSearch''"] assms
    by (simp add: groupsPresent_def)
  have p3: "getPath config [''resultFields'', ''title'', ''field'']
              = Inr (leaf config [''resultFields'', ''title'', ''field''])"
    using getPath_leaf [of config "[''resultFields'', ''title'']" "''field''"] assms
    by (simp add: groupsPresent_def)
  have p4: "getPath config [''resultFields'', ''description'', ''fields'']
              = Inr (leaf config [''resultFields'', ''description'', ''fields''])"
    using getPath_leaf [of config "[''resultFields'', ''description'']" "''fields''"] assms
    by (simp add: groupsPresent_def)
  have p5: "getPath config [''resultFields'', ''link'', ''fields'']
              = Inr (leaf config [''resultFields'', ''link'', ''fields''])"
    using getPath_leaf [of config "[''resultFields'', ''link'']" "''fields''"] assms
    by (simp add: groupsPresent_def)
  have p6: "getPath config [''dateFilter'', ''enabled'']
              = Inr (leaf config [''dateFilter'', ''enabled''])"
    using getPath_leaf [of config "[''dateFilter'']" "''enabled''"] assms
    by (simp add: groupsPresent_def)
  have p7: "getPath config [''dateFilter'', ''fieldName'']
              = Inr (leaf config [''dateFilter'', ''fieldName''])"
    using getPath_leaf [of config "[''dateFilter'']" "''fieldName''"] assms
    by (simp add: groupsPresent_def)
  let ?R = "foldl (\<lambda>r (p, b). push_if b p r) [] (checklist config)"
  have "validateConfig config = (if ?R \<noteq> [] then Inl (Error (missingMessage ?R)) else Inr ())"
  proof (cases "truthy (leaf config [''dateFilter'', ''enabled''])")
    case True
    then show ?thesis
      unfolding validateConfig_def p1 p2 p3 p4 p5 p6 p7 emptyOrMissing_emptyList
      by (simp add: checklist_def split del: if_split cong: if_cong)
  next
    case False
    then show ?thesis
      unfolding validateConfig_def p1 p2 p3 p4 p5 p6 p7 emptyOrMissing_emptyList
      by (simp add: checklist_def split del: if_split cong: if_cong)
  qed
  then show ?thesis
    by (simp add: foldl_push_if missingPaths_def)
qed

text \<open>
  C2, as stated: every merged configuration with a missing leaf is said to fail with the
  aggregated error. The merge of the defaults with the user configuration
  \<^verbatim>\<open>{server: null}\<close> holds \<^verbatim>\<open>null\<close> for the group, so that \<^verbatim>\<open>server.defaultURL\<close> is
  missing, and validation reports no path: the first read of a leaf of the group throws a
  TypeError. The checks read every group without a guard, here and wherever the library uses
  the configuration later; only the group \<^verbatim>\<open>theme\<close>, which the defaults do not hold, is
  read with \<^verbatim>\<open>?.\<close>.
\<close>

theorem validateConfig_null_group_throws_TypeError:
  "validateConfig (mergeConfig (JObj [(''server'', JNull)])) = Inl TypeError
   \<and> ''server.defaultURL'' \<in> set (missingPaths (mergeConfig (JObj [(''server'', JNull)])))"
  by code_simp

text \<open>
  C2, amended. For every merged configuration whose groups \<^verbatim>\<open>server\<close>, \<^verbatim>\<open>resultFields.title\<close>,
  \<^verbatim>\<open>resultFields.description\<close>, \<^verbatim>\<open>resultFields.link\<close> and \<^verbatim>\<open>dateFilter\<close> are present,
  validation runs the whole checklist: it passes when no leaf is missing, and otherwise fails
  with one error whose message is the heading, one line \<^verbatim>\<open>  - path\<close> for every missing
  path, in checklist order, an empty line and the hint.
\<close>

theorem validateConfig_reports_every_missing_path:
  assumes "groupsPresent config"
  shows "validateConfig config =
           (if missingPaths config = [] then Inr ()
            else Inl (Error
              (''SmartSearchUI: Missing required configuration:'' @ [CHR 0x0A] @
               concat (map (\<lambda>p. ''  - '' @ p @ [CHR 0x0A]) (missingPaths config)) @ [CHR 0x0A] @
               ''Please provide these values in config/project.config.js'')))"
  using validateConfig_checklist [OF assms] missingMessage_lines [of "missingPaths config"]
  by simp

theorem validateConfig_witness:
  "validateConfig (mergeConfig (JObj [(''server'', JObj [(''defaultURL'', JStr ''https://search.example'')])]))
     = Inl (Error
         (''SmartSearchUI: Missing required configuration:'' @ [CHR 0x0A] @
          ''  - server.defaultPreparedSearch'' @ [CHR 0x0A] @
          ''  - resultFields.title.field'' @ [CHR 0x0A] @
          ''  - resultFields.description.fields'' @ [CHR 0x0A] @
          ''  - resultFields.link.fields'' @ [CHR 0x0A] @
          ''  - dateFilter.fieldName (required when dateFilter.enabled = true)'' @ [CHR 0x0A] @
          [CHR 0x0A] @
          ''Please provide these values in config/project.config.js''))
   \<and> validateConfig (mergeConfig sampleConfig) = Inr ()"
proof -
  let ?c = "mergeConfig (JObj [(''server'', JObj [(''defaultURL'', JStr ''https://search.example'')])])"
  have g: "groupsPresent ?c"
    by code_simp
  have m: "missingPaths ?c = [''server.defaultPreparedSearch'', ''resultFields.title.field'',
          ''resultFields.description.fields'', ''resultFields.link.fields'',
          ''dateFilter.fieldName (required when dateFilter.enabled = true)'']"
    by code_simp
  have g': "groupsPresent (mergeConfig sampleConfig)"
    by code_simp
  have m': "missingPaths (mergeConfig sampleConfig) = []"
    by code_simp
  show ?thesis
    using validateConfig_reports_every_missing_path [OF g]
      validateConfig_reports_every_missing_path [OF g'] m m'
    by simp
qed

section \<open>Field extraction and date formatting\<close>

text \<open>\<^verbatim>\<open>Array.isArray(value) ? value[0] : value\<close>.\<close>

fun firstOf :: "jsval \<Rightarrow> jsval" where
  "firstOf (JArr xs) = (case xs of [] \<Rightarrow> JUndef | x # rest \<Rightarrow> x)"
| "firstOf v = v"

text \<open>
  What \<^verbatim>\<open>for (const field of fields)\<close> runs over: the elements of an array, the characters of
  a string; any other truthy value is not iterable.
\<close>

fun iterate :: "jsval \<Rightarrow> js_error + jsval list" where
  "iterate (JArr xs) = Inr xs"
| "iterate (JStr s) = Inr (chars_of s)"
| "iterate v = Inl TypeError"

text \<open>
  The loop of \<^verbatim>\<open>getField\<close> over the candidate fields: \<open>Some\<close> is the \<^verbatim>\<open>return\<close> inside
  the loop, \<open>None\<close> its running to the end.
\<close>

fun scanFields :: "jsval \<Rightarrow> jsval list \<Rightarrow> js_error + jsval option" where
  "scanFields result [] = Inr None"
| "scanFields result (field # rest) =
     bindE (getProp result (toString field)) (\<lambda>value.
       if truthy value then Inr (Some (firstOf value)) else scanFields result rest)"

text \<open>\<^verbatim>\<open>fieldConfig.fallback || null\<close>.\<close>

definition fallbackOrNull :: "jsval \<Rightarrow> js_error + jsval" where
  "fallbackOrNull fieldConfig = bindE (getProp fieldConfig ''fallback'') (\<lambda>fb. Inr (js_or fb JNull))"

text \<open>\<^verbatim>\<open>getField(result, fieldName)\<close>, with the configuration of the instance as a parameter.\<close>

definition getField :: "jsval \<Rightarrow> jsval \<Rightarrow> string \<Rightarrow> js_error + jsval" where
  "getField config result fieldName =
     bindE (getPath config [''resultFields'', fieldName]) (\<lambda>fieldConfig.
       if \<not> truthy fieldConfig then Inr JNull
       else bindE (getProp fieldConfig ''field'') (\<lambda>field.
         if truthy field
         then bindE (getProp result (toString field)) (\<lambda>value.
                if truthy value then Inr (firstOf value) else fallbackOrNull fieldConfig)
         else bindE (getProp fieldConfig ''fields'') (\<lambda>fields.
           if truthy fields
           then bindE (iterate fields) (\<lambda>candidates.
                bindE (scanFields result candidates) (\<lambda>found.
                  case found of Some v \<Rightarrow> Inr v | None \<Rightarrow> fallbackOrNull fieldConfig))
           else Inr JNull)))"

text \<open>
  \<^verbatim>\<open>formatDate(result)\<close>. The platform's date functions are parameters: \<open>newDate v\<close> is
  the time value of \<^verbatim>\<open>new Date(v)\<close>, \<open>None\<close> for an invalid date;
  \<open>toLocaleDateString locale format t\<close> is the formatting of a valid date, which throws a
  RangeError on a locale or an option it does not accept. On an invalid date the platform's
  \<^verbatim>\<open>toLocaleDateString\<close> returns the string \<^verbatim>\<open>Invalid Date\<close> and throws nothing. The inner
  \<open>case\<close> is the \<^verbatim>\<open>try\<close> block, its \<open>Inl\<close> branch the \<^verbatim>\<open>catch\<close>; the message the
  \<^verbatim>\<open>catch\<close> writes to the console is left out.
\<close>

definition formatDate ::
  "(jsval \<Rightarrow> int option) \<Rightarrow> (jsval \<Rightarrow> jsval \<Rightarrow> int \<Rightarrow> js_error + string) \<Rightarrow>
   jsval \<Rightarrow> jsval \<Rightarrow> js_error + jsval" where
  "formatDate newDate toLocaleDateString config result =
     bindE (getPath config [''resultFields'', ''date'']) (\<lambda>dateConfig.
     bindE (getProp dateConfig ''field'') (\<lambda>field.
     bindE (getProp result (toString field)) (\<lambda>dateValue.
       if \<not> truthy dateValue then getProp dateConfig ''fallback''
       else (case (case newDate dateValue of
                     None \<Rightarrow> Inr ''Invalid Date''
                   | Some t \<Rightarrow>
                       bindE (getProp dateConfig ''locale'') (\<lambda>locale.
                       bindE (getProp dateConfig ''format'') (\<lambda>format.
                         toLocaleDateString locale format t))) of
               Inr formatted \<Rightarrow> Inr (JStr formatted)
             | Inl e \<Rightarrow> getProp dateConfig ''fallback''))))"


subsection \<open>Resolution of a logical field name\<close>

text \<open>
  The candidates of a field configuration, as the specification words them: the single
  configured field, or else the configured list in its order. The value of a candidate in a
  result is what the read \<^verbatim>\<open>result[candidate]\<close> gives; a candidate is set when that value
  is truthy, that is, anything but \<^verbatim>\<open>undefined\<close>, \<^verbatim>\<open>null\<close>, \<^verbatim>\<open>false\<close>, \<^verbatim>\<open>0\<close> and the
  empty string. \<open>firstSet\<close> is the value of the first candidate that is set, \<open>reduced\<close> an
  array's first element or the value itself, \<open>orNull\<close> the fallback when it is truthy.
\<close>

definition candidateFields :: "(string \<times> jsval) list \<Rightarrow> jsval list option" where
  "candidateFields fc =
     (if truthy (lookup fc ''field'') then Some [lookup fc ''field'']
      else (case lookup fc ''fields'' of JArr cs \<Rightarrow> Some cs | _ \<Rightarrow> None))"

definition valueIn :: "(string \<times> jsval) list \<Rightarrow> jsval \<Rightarrow> jsval" where
  "valueIn r c = readProperty r (toString c)"

definition firstSet :: "(string \<times> jsval) list \<Rightarrow> jsval list \<Rightarrow> jsval option" where
  "firstSet r cs = find truthy (map (valueIn r) cs)"

definition reduced :: "jsval \<Rightarrow> jsval" where
  "reduced v = (case v of JArr (x # rest) \<Rightarrow> x | _ \<Rightarrow> v)"

definition orNull :: "jsval \<Rightarrow> jsval" where
  "orNull fb = (if truthy fb then fb else JNull)"

lemma scanFields_firstSet:
  "scanFields (JObj r) cs = Inr (map_option firstOf (firstSet r cs))"
  by (induction cs) (simp_all add: firstSet_def valueIn_def)

lemma firstOf_reduced: "v \<noteq> JArr [] \<Longrightarrow> firstOf v = reduced v"
  by (cases v) (auto simp: reduced_def split: list.splits)

lemma field_names_not_inherited:
  "''field'' \<notin> set inheritedNames" "''fields'' \<notin> set inheritedNames"
  "''fallback'' \<notin> set inheritedNames" "''locale'' \<notin> set inheritedNames"
  "''format'' \<notin> set inheritedNames"
  by (simp_all add: inheritedNames_eq)

lemma readProperty_field_names:
  "readProperty fc ''field'' = lookup fc ''field''"
  "readProperty fc ''fields'' = lookup fc ''fields''"
  "readProperty fc ''fallback'' = lookup fc ''fallback''"
  "readProperty fc ''locale'' = lookup fc ''locale''"
  "readProperty fc ''format'' = lookup fc ''format''"
  by (simp_all add: readProperty_own_name field_names_not_inherited del: lookup.simps)

text \<open>
  What \<^verbatim>\<open>getField\<close> returns for a result object and a logical name whose entry configures
  candidates, whatever the values: the code's own reduction \<open>firstOf\<close> of the first value
  that is set, else \<^verbatim>\<open>fallback || null\<close>.
\<close>

lemma getField_candidates:
  assumes "getPath config [''resultFields'', name] = Inr (JObj fc)"
    and "candidateFields fc = Some cs"
  shows "getField config (JObj r) name =
           Inr (case firstSet r cs of
                  Some v \<Rightarrow> firstOf v
                | None \<Rightarrow> js_or (lookup fc ''fallback'') JNull)"
proof (cases "truthy (lookup fc ''field'')")
  case True
  with assms(2) have cs: "cs = [lookup fc ''field'']"
    by (simp add: candidateFields_def)
  show ?thesis
    unfolding getField_def assms(1) cs fallbackOrNull_def
    using True
    by (simp add: readProperty_field_names firstSet_def valueIn_def del: lookup.simps)
next
  case False
  with assms(2) have fs: "lookup fc ''fields'' = JArr cs"
    by (simp add: candidateFields_def split: jsval.splits)
  show ?thesis
    unfolding getField_def assms(1) fallbackOrNull_def
    using False fs
    by (simp add: readProperty_field_names scanFields_firstSet del: lookup.simps
        split: option.splits)
qed

text \<open>
  C3, as stated: the first non-empty candidate is said to give the value, and the
  configured fallback is said to be returned when no candidate resolves. Under the
  description entry
  \<^verbatim>\<open>{fields: ['content', 'description', 'text'], fallback: 'No description available'}\<close>, a
  result whose \<^verbatim>\<open>content\<close> is the empty array and whose \<^verbatim>\<open>text\<close> is set gives
  \<^verbatim>\<open>undefined\<close>: the empty array passes the test \<^verbatim>\<open>if (value)\<close> and its element 0 is
  returned, neither the text nor the fallback. Under the entry
  \<^verbatim>\<open>{fields: ['content'], fallback: ''}\<close>, a result without \<^verbatim>\<open>content\<close> gives \<^verbatim>\<open>null\<close>,
  not the configured fallback, the empty string: the code returns \<^verbatim>\<open>fallback || null\<close>.
\<close>

theorem getField_empty_array_and_empty_fallback:
  "getField (mergeConfig sampleConfig)
      (JObj [(''content'', JArr []), (''text'', JStr ''Body text'')]) ''description''
     = Inr JUndef
   \<and> getField
        (mergeConfig (JObj [(''resultFields'', JObj [(''description'',
           JObj [(''fields'', JArr [JStr ''content'']), (''fallback'', JStr [])])])]))
        (JObj [(''title'', JStr ''Only a title'')]) ''description''
     = Inr JNull"
  by code_simp

text \<open>
  C3, amended. For every result object and every logical name whose \<^verbatim>\<open>resultFields\<close> entry
  configures one field or a list of candidates, provided the first value that is set is not
  an empty array: \<^verbatim>\<open>getField\<close> returns the value of the first candidate that is set in the
  result, reduced to its first element when it is an array; when no candidate is set it
  returns the configured fallback if that is truthy and \<^verbatim>\<open>null\<close> otherwise.
\<close>

theorem getField_first_set_candidate:
  assumes "getPath config [''resultFields'', name] = Inr (JObj fc)"
    and "candidateFields fc = Some cs"
    and "firstSet r cs \<noteq> Some (JArr [])"
  shows "getField config (JObj r) name =
           Inr (case firstSet r cs of
                  Some v \<Rightarrow> reduced v
                | None \<Rightarrow> orNull (lookup fc ''fallback''))"
  using assms(3)
  by (auto simp add: getField_candidates [OF assms(1,2)] firstOf_reduced js_or_def orNull_def
      split: option.splits simp del: lookup.simps)

theorem getField_witness:
  "getField (mergeConfig sampleConfig) (JObj [(''text'', JStr ''Body text'')]) ''description''
     = Inr (JStr ''Body text'')
   \<and> getField (mergeConfig sampleConfig) (JObj [(''title'', JStr ''Only a title'')]) ''description''
     = Inr (JStr ''No description available'')
   \<and> getField (mergeConfig sampleConfig)
        (JObj [(''title'', JArr [JStr ''First'', JStr ''Second''])]) ''title''
     = Inr (JStr ''First'')
   \<and> getField (mergeConfig sampleConfig) (JObj [(''title'', JStr ''Only a title'')]) ''language''
     = Inr JNull"
proof -
  let ?d = "[(''fields'', JArr [JStr ''content'', JStr ''description'', JStr ''text'']),
             (''fallback'', JStr ''No description available''),
             (''useHighlighting'', JBool True)]"
  let ?t = "[(''field'', JStr ''title''), (''fallback'', JStr ''Untitled'')]"
  let ?l = "[(''field'', JStr ''language_keyword''), (''default'', JStr ''EN'')]"
  have d: "getPath (mergeConfig sampleConfig) [''resultFields'', ''description''] = Inr (JObj ?d)"
    by code_simp
  have t: "getPath (mergeConfig sampleConfig) [''resultFields'', ''title''] = Inr (JObj ?t)"
    by code_simp
  have l: "getPath (mergeConfig sampleConfig) [''resultFields'', ''language''] = Inr (JObj ?l)"
    by code_simp
  have cd: "candidateFields ?d = Some [JStr ''content'', JStr ''description'', JStr ''text'']"
    by (simp add: candidateFields_def)
  have ct: "candidateFields ?t = Some [JStr ''title'']"
    by (simp add: candidateFields_def)
  have cl: "candidateFields ?l = Some [JStr ''language_keyword'']"
    by (simp add: candidateFields_def)
  have s1: "firstSet [(''text'', JStr ''Body text'')]
              [JStr ''content'', JStr ''description'', JStr ''text''] = Some (JStr ''Body text'')"
    by code_simp
  have s2: "firstSet [(''title'', JStr ''Only a title'')]
              [JStr ''content'', JStr ''description'', JStr ''text''] = None"
    by code_simp
  have s3: "firstSet [(''title'', JArr [JStr ''First'', JStr ''Second''])] [JStr ''title'']
              = Some (JArr [JStr ''First'', JStr ''Second''])"
    by code_simp
  have s4: "firstSet [(''title'', JStr ''Only a title'')] [JStr ''language_keyword''] = None"
    by code_simp
  show ?thesis
    using getField_first_set_candidate [OF d cd, of "[(''text'', JStr ''Body text'')]"]
      getField_first_set_candidate [OF d cd, of "[(''title'', JStr ''Only a title'')]"]
      getField_first_set_candidate [OF t ct, of "[(''title'', JArr [JStr ''First'', JStr ''Second''])]"]
      getField_first_set_candidate [OF l cl, of "[(''title'', JStr ''Only a title'')]"]
    by (simp add: s1 s2 s3 s4 reduced_def orNull_def)
qed

subsection \<open>Formatting the date of a result\<close>

lemma formatDate_cases:
  assumes "getPath config [''resultFields'', ''date''] = Inr (JObj dc)"
  shows "formatDate newDate toLocaleDateString config (JObj r) =
     Inr (let dateValue = readProperty r (toString (lookup dc ''field'')) in
          if \<not> truthy dateValue then lookup dc ''fallback''
          else (case newDate dateValue of
                  None \<Rightarrow> JStr ''Invalid Date''
                | Some t \<Rightarrow>
                    (case toLocaleDateString (lookup dc ''locale'') (lookup dc ''format'') t of
                       Inr formatted \<Rightarrow> JStr formatted
                     | Inl e \<Rightarrow> lookup dc ''fallback'')))"
  unfolding formatDate_def assms
  by (simp add: readProperty_field_names Let_def split: option.splits sum.splits
      del: lookup.simps)

text \<open>
  C7. \<^verbatim>\<open>formatDate\<close> is meant to return the configured fallback for a value that does not
  parse. The \<^verbatim>\<open>catch\<close> that returns the fallback is never reached for such a value: the
  date object is invalid, formatting it throws nothing, and the result is the string
  \<^verbatim>\<open>Invalid Date\<close>, whatever the fallback.
\<close>

theorem formatDate_unparseable_gives_Invalid_Date:
  assumes "getPath config [''resultFields'', ''date''] = Inr (JObj dc)"
    and "lookup r (toString (lookup dc ''field'')) = dateValue"
    and "truthy dateValue" and "newDate dateValue = None"
  shows "formatDate newDate toLocaleDateString config (JObj r) = Inr (JStr ''Invalid Date'')"
proof -
  from assms(2,3) have "readProperty r (toString (lookup dc ''field'')) = dateValue"
    using readProperty_truthy_own [of r "toString (lookup dc ''field'')"] by simp
  with assms(3,4) show ?thesis
    by (simp add: formatDate_cases [OF assms(1)] del: lookup.simps)
qed

text \<open>A date parser for the example: numbers are time values, nothing else parses.\<close>

definition timestampsOnly :: "jsval \<Rightarrow> int option" where
  "timestampsOnly v = (case v of JNum n \<Rightarrow> Some n | _ \<Rightarrow> None)"

theorem formatDate_unparseable_witness:
  "formatDate timestampsOnly (\<lambda>locale format t. Inr ''Jan 1, 1970'') (mergeConfig sampleConfig)
     (JObj [(''meta_date'', JStr ''not a date'')]) = Inr (JStr ''Invalid Date'')
   \<and> getPath (mergeConfig sampleConfig) [''resultFields'', ''date'', ''fallback'']
     = Inr (JStr ''No date'')"
proof -
  let ?dc = "[(''field'', JStr ''meta_date''),
              (''format'', JObj [(''year'', JStr ''numeric''), (''month'', JStr ''short''),
                 (''day'', JStr ''numeric'')]),
              (''locale'', JStr ''en''), (''fallback'', JStr ''No date'')]"
  have d: "getPath (mergeConfig sampleConfig) [''resultFields'', ''date''] = Inr (JObj ?dc)"
    by code_simp
  have v: "lookup [(''meta_date'', JStr ''not a date'')] (toString (lookup ?dc ''field''))
             = JStr ''not a date''"
    by simp
  have f: "getPath (mergeConfig sampleConfig) [''resultFields'', ''date'', ''fallback'']
     = Inr (JStr ''No date'')"
    by code_simp
  have "formatDate timestampsOnly (\<lambda>locale format t. Inr ''Jan 1, 1970'')
          (mergeConfig sampleConfig) (JObj [(''meta_date'', JStr ''not a date'')])
        = Inr (JStr ''Invalid Date'')"
    using formatDate_unparseable_gives_Invalid_Date [OF d v, of timestampsOnly]
    by (simp add: timestampsOnly_def)
  with f show ?thesis by blast
qed

section \<open>The user interface\<close>

text \<open>
  The class \<^verbatim>\<open>SmartSearchUI\<close> works on its own fields, on the document and on the external
  search client. The state below holds what its theme and search operations read and write.

  A theme descriptor is an object of functions; what the library asks of it is whether each
  optional member is there, and its stylesheet. The hooks and render overrides themselves are
  opaque: a call of a hook is recorded in the trace, the markup an override returns is the
  element \<open>ThemeFacet\<close> or \<open>ThemeCard\<close> of that theme, and what a hook does to the page
  layout on its own is not part of the state. None of the hooks of the three themes of the
  repository adds or removes a child of the facet container or assigns a field of the
  instance.

  Theme ids are strings, those that name a registered theme and any other. They are taken
  to be tokens that \<^verbatim>\<open>classList.add\<close> and the attribute selector of \<^verbatim>\<open>_loadThemeCSS\<close>
  accept as they stand (no white space, no quotes).
\<close>

record theme =
  themeName :: string
  cssFile :: "string option"
  hasInit :: bool
  hasDestroy :: bool
  hasRenderFacet :: bool
  hasRenderResultCard :: bool
  hasAttachFacetListeners :: bool
  hasAttachCardListeners :: bool

text \<open>
  A facet and a result page of the external client. The five counters are the aliases
  \<^verbatim>\<open>responseData.numRows\<close>, \<^verbatim>\<open>numRows\<close>, \<^verbatim>\<open>totalHits\<close>, \<^verbatim>\<open>totalResults\<close> and \<^verbatim>\<open>total\<close>,
  0 when absent; a search result is a pair of the result object and its highlights.
\<close>

record facet =
  facetName :: string
  displayName :: "string option"
  counts :: "(string \<times> nat) list"
  selectedValues :: "string list"

record page =
  facets :: "facet list option"
  searchResults :: "(jsval \<times> jsval) list option"
  responseNumRows :: nat
  numRows :: nat
  totalHits :: nat
  totalResults :: nat
  total :: nat
  didYouMean :: "string list"

text \<open>
  A stylesheet element of the document with a \<^verbatim>\<open>data-theme\<close> attribute; \<open>node\<close> is its
  identity, which \<^verbatim>\<open>loadedThemeCSS\<close> refers to.
\<close>

record link =
  node :: nat
  href :: string
  dataTheme :: string

text \<open>What a container of the page holds after rendering.\<close>

datatype elem =
    ThemeFacet theme facet bool
  | BuiltInFacet facet
  | ThemeCard theme jsval jsval bool
  | TemplateCard jsval jsval
  | BuiltInCard jsval jsval
  | NoResults
  | EmptyPrompt

text \<open>
  The effects on the outside, in program order: console output, storage writes, theme
  hooks, changes of the body's class list and of the stylesheet elements, calls on the search
  client and on a facet, and the parts of rendering that the page renderer of the client, the
  date inputs and the configured hooks carry out.
\<close>

datatype event =
    Warn string
  | Log string
  | ConsoleError string
  | StorageSet string string
  | HookDestroy theme
  | HookInit theme
  | ClassRemoved string
  | ClassAdded string
  | LinkRemoved nat
  | LinkAppended link
  | SetCustomParams string string
  | DeleteCustomParams string
  | FacetFilter facet "string list"
  | DateFilterSetup page
  | PaginationRendered page
  | DidYouMeanRendered page
  | AfterRender page
  | ResultsInfo page
  | ScrollToTop

text \<open>
  The values of the merged configuration that these operations read, each as the test in
  the code sees it: \<open>themeStorageKey\<close> is \<^verbatim>\<open>config.theme?.localStorageKey\<close> when truthy,
  \<open>beforeRender\<close> the hook when configured, \<open>afterRender\<close> and \<open>resultTemplate\<close> whether
  those functions are configured, \<open>displayNames\<close> the table \<^verbatim>\<open>facets.displayNames\<close>, read
  under the names of facets, which are taken not to be names of inherited members.
\<close>

record settings =
  themeStorageKey :: "string option"
  dateFilterEnabled :: bool
  dateFieldName :: string
  solrFilterParam :: string
  displayNames :: "string \<rightharpoonup> string"
  beforeRender :: "(page \<Rightarrow> page) option"
  afterRender :: bool
  resultTemplate :: bool
  didYouMeanEnabled :: bool
  smoothScrolling :: bool

text \<open>
  The instance (\<open>config\<close> to \<open>facetContainer\<close>; \<open>facetContainer\<close> is the children of
  the element the field refers to, \<open>None\<close> for \<^verbatim>\<open>null\<close>), the document (\<open>body\<close> is the
  class list of \<^verbatim>\<open>document.body\<close>, \<open>None\<close> while there is no body; \<open>loading\<close> is
  \<^verbatim>\<open>readyState === 'loading'\<close>; \<open>domContentLoaded\<close> the listeners \<^verbatim>\<open>_applyThemeClass\<close>
  has registered, by
  theme id, whose later firing is not modelled; \<open>searchResultsEl\<close> the children of \<^verbatim>\<open>#search-results\<close>,
  \<open>None\<close> when the element is missing; \<open>startDate\<close> and \<open>endDate\<close> the values of the two
  date inputs, \<open>None\<close> when the input is missing; \<open>checked\<close> the names of the checked facet
  boxes), the browser's storage and the trace.
\<close>

record ui =
  config :: settings
  themeRegistry :: "string \<rightharpoonup> theme"
  currentTheme :: "theme option"
  currentThemeId :: "string option"
  loadedThemeCSS :: "nat list"
  currentPage :: "page option"
  facetContainer :: "elem list option"
  body :: "string list option"
  loading :: bool
  domContentLoaded :: "string list"
  links :: "link list"
  fresh :: nat
  hasFacetsContainer :: bool
  searchResultsEl :: "elem list option"
  paginationEl :: bool
  startDate :: "string option"
  endDate :: "string option"
  checked :: "string list"
  localStorage :: "string \<rightharpoonup> string"
  trace :: "event list"

subsection \<open>Theme lifecycle\<close>

definition emit :: "event \<Rightarrow> ui \<Rightarrow> ui" where
  "emit e s = s\<lparr>trace := trace s @ [e]\<rparr>"

definition themeClass :: "string \<Rightarrow> string" where
  "themeClass themeId = ''theme-'' @ themeId"

definition classAdd :: "string \<Rightarrow> string list \<Rightarrow> string list" where
  "classAdd c cs = (if c \<in> set cs then cs else cs @ [c])"

definition classRemove :: "string \<Rightarrow> string list \<Rightarrow> string list" where
  "classRemove c cs = filter (\<lambda>x. x \<noteq> c) cs"

text \<open>\<^verbatim>\<open>_loadThemeCSS(cssFile, themeId)\<close>.\<close>

definition loadThemeCSS :: "string \<Rightarrow> string \<Rightarrow> ui \<Rightarrow> ui" where
  "loadThemeCSS file themeId s =
     (if themeId \<in> set (map dataTheme (links s)) then s
      else (let l = \<lparr>node = fresh s, href = file, dataTheme = themeId\<rparr>
            in emit (LinkAppended l)
                 (s\<lparr>links := links s @ [l], fresh := Suc (fresh s),
                    loadedThemeCSS := loadedThemeCSS s @ [node l]\<rparr>)))"

text \<open>
  \<^verbatim>\<open>_applyThemeClass(themeId)\<close>; \<open>applyClass\<close> is the closure of the same name, which reads
  the current theme when it runs.
\<close>

definition applyClass :: "string \<Rightarrow> ui \<Rightarrow> ui" where
  "applyClass themeId s =
     (case body s of
        None \<Rightarrow> s
      | Some cs \<Rightarrow>
          (let s1 = emit (ClassAdded (themeClass themeId))
                      (s\<lparr>body := Some (classAdd (themeClass themeId) cs)\<rparr>)
           in case currentTheme s1 of
                None \<Rightarrow> s1
              | Some t \<Rightarrow> if hasInit t then emit (HookInit t) s1 else s1))"

definition applyThemeClass :: "string \<Rightarrow> ui \<Rightarrow> ui" where
  "applyThemeClass themeId s =
     (if body s \<noteq> None then applyClass themeId s
      else if loading s then s\<lparr>domContentLoaded := domContentLoaded s @ [themeId]\<rparr>
      else applyClass themeId s)"

text \<open>
  \<^verbatim>\<open>_unloadTheme()\<close>; \<open>removeLink\<close> is the body of its loop over \<^verbatim>\<open>loadedThemeCSS\<close>, which
  removes an element that still has a parent.
\<close>

definition removeLink :: "nat \<Rightarrow> ui \<Rightarrow> ui" where
  "removeLink n s =
     (if n \<in> set (map node (links s))
      then emit (LinkRemoved n) (s\<lparr>links := filter (\<lambda>l. node l \<noteq> n) (links s)\<rparr>)
      else s)"

definition unloadTheme :: "ui \<Rightarrow> ui" where
  "unloadTheme s =
     (case currentTheme s of
        None \<Rightarrow> s
      | Some t \<Rightarrow>
          (let s1 = (if hasDestroy t then emit (HookDestroy t) s else s);
               s2 = (case (body s1, currentThemeId s1) of
                       (Some cs, Some i) \<Rightarrow>
                         if i \<noteq> []
                         then emit (ClassRemoved (themeClass i))
                                (s1\<lparr>body := Some (classRemove (themeClass i) cs)\<rparr>)
                         else s1
                     | _ \<Rightarrow> s1);
               s3 = fold removeLink (loadedThemeCSS s2) s2
           in s3\<lparr>loadedThemeCSS := [], currentTheme := None, currentThemeId := None\<rparr>))"

text \<open>
  \<^verbatim>\<open>this.themeRegistry[themeId]\<close>. The registry is the object literal
  \<^verbatim>\<open>window.SmartSearchThemes\<close>, and \<open>themeRegistry\<close> holds the themes registered in it. The
  read finds a registered theme under its id, and under the name of a member that the object
  inherits it finds that member: a built-in function or the prototype object, which is truthy
  and has no \<^verbatim>\<open>cssFile\<close>, no \<^verbatim>\<open>init\<close>, no \<^verbatim>\<open>destroy\<close>, no \<^verbatim>\<open>components\<close> and no
  \<^verbatim>\<open>eventHandlers\<close>. \<open>inheritedTheme\<close> is such a member seen as a theme descriptor; its
  \<open>themeName\<close> is the name of the function, empty for the prototype object.
\<close>

definition inheritedTheme :: "string \<Rightarrow> theme" where
  "inheritedTheme key =
     \<lparr>themeName = (if key = ''constructor'' then ''Object''
                   else if key = ''__proto__'' then [] else key),
      cssFile = None, hasInit = False, hasDestroy = False, hasRenderFacet = False,
      hasRenderResultCard = False, hasAttachFacetListeners = False,
      hasAttachCardListeners = False\<rparr>"

definition findTheme :: "(string \<rightharpoonup> theme) \<Rightarrow> string \<Rightarrow> theme option" where
  "findTheme registry themeId =
     (case registry themeId of
        Some theme \<Rightarrow> Some theme
      | None \<Rightarrow> if themeId \<in> set inheritedNames then Some (inheritedTheme themeId) else None)"

text \<open>\<^verbatim>\<open>_loadTheme(themeId)\<close> and the two lines it writes to the console.\<close>

definition notFoundMessage :: "string \<Rightarrow> string" where
  "notFoundMessage themeId =
     ''[SmartSearchUI] Theme '' @ [CHR 0x27] @ themeId @ [CHR 0x27] @ '' not found, using default''"

definition loadedMessage :: "string \<Rightarrow> string" where
  "loadedMessage themeId =
     ''[SmartSearchUI] Theme '' @ [CHR 0x27] @ themeId @ [CHR 0x27] @ '' loaded successfully''"

definition loadTheme :: "string \<Rightarrow> ui \<Rightarrow> ui" where
  "loadTheme themeId s =
     (case findTheme (themeRegistry s) themeId of
        None \<Rightarrow> emit (Warn (notFoundMessage themeId)) s
      | Some theme \<Rightarrow>
          (let s1 = (if currentTheme s \<noteq> None then unloadTheme s else s);
               s2 = (case cssFile theme of None \<Rightarrow> s1 | Some file \<Rightarrow> loadThemeCSS file themeId s1);
               s3 = s2\<lparr>currentTheme := Some theme, currentThemeId := Some themeId\<rparr>;
               s4 = applyThemeClass themeId s3
           in emit (Log (loadedMessage themeId)) s4))"

subsection \<open>Rendering\<close>

text \<open>\<^verbatim>\<open>renderFacet(facet)\<close> and \<^verbatim>\<open>_renderFacetDefault(facet)\<close>: both append to the container.\<close>

definition appendFacet :: "elem \<Rightarrow> ui \<Rightarrow> ui" where
  "appendFacet e s = s\<lparr>facetContainer := map_option (\<lambda>es. es @ [e]) (facetContainer s)\<rparr>"

definition renderFacetDefault :: "facet \<Rightarrow> ui \<Rightarrow> ui" where
  "renderFacetDefault f s = (if facetContainer s = None then s else appendFacet (BuiltInFacet f) s)"

definition renderFacet :: "facet \<Rightarrow> ui \<Rightarrow> ui" where
  "renderFacet f s =
     (if facetContainer s = None then s
      else (case currentTheme s of
              None \<Rightarrow> renderFacetDefault f s
            | Some t \<Rightarrow>
                if hasRenderFacet t
                then appendFacet (ThemeFacet t f (hasAttachFacetListeners t)) s
                else renderFacetDefault f s))"

text \<open>
  \<^verbatim>\<open>renderAllFacets(page)\<close>; \<open>facetToRender\<close> is the choice between the facet and its renamed
  copy, \<open>setDisplayName\<close> the facet's own operation.
\<close>

definition setDisplayName :: "string \<Rightarrow> facet \<Rightarrow> facet" where
  "setDisplayName d f = f\<lparr>displayName := Some d\<rparr>"

definition facetToRender :: "settings \<Rightarrow> facet \<Rightarrow> facet" where
  "facetToRender c f =
     (case displayNames c (facetName f) of
        None \<Rightarrow> f
      | Some d \<Rightarrow> if d \<noteq> [] then setDisplayName d f else f)"

definition renderAllFacets :: "page \<Rightarrow> ui \<Rightarrow> ui" where
  "renderAllFacets p s =
     (case facets p of
        None \<Rightarrow> s
      | Some fs \<Rightarrow>
          if fs = [] then s
          else (let s1 = (if dateFilterEnabled (config s) then emit (DateFilterSetup p) s else s)
                in fold (\<lambda>f. renderFacet (facetToRender (config s1) f)) fs s1))"

text \<open>
  \<^verbatim>\<open>renderSearchResults(page)\<close> with \<^verbatim>\<open>_renderWithCustomTemplate\<close> and
  \<^verbatim>\<open>_renderDefaultCards\<close>; \<open>pageTotal\<close> is the chain of \<^verbatim>\<open>||\<close> over the counters.
  The markup of a card is opaque. Building the built-in card reads the result through
  \<^verbatim>\<open>getField\<close> and \<^verbatim>\<open>formatDate\<close> and takes the length of the link: it throws on a result
  whose link resolves to \<^verbatim>\<open>null\<close> or \<^verbatim>\<open>undefined\<close>. The pages of the model are those
  whose results give the built-in card a link, as the fallback \<^verbatim>\<open>#\<close> of the defaults does.
\<close>

definition pageTotal :: "page \<Rightarrow> nat" where
  "pageTotal p =
     (if responseNumRows p \<noteq> 0 then responseNumRows p
      else if numRows p \<noteq> 0 then numRows p
      else if totalHits p \<noteq> 0 then totalHits p
      else if totalResults p \<noteq> 0 then totalResults p
      else total p)"

definition appendCard :: "elem \<Rightarrow> ui \<Rightarrow> ui" where
  "appendCard e s = s\<lparr>searchResultsEl := map_option (\<lambda>es. es @ [e]) (searchResultsEl s)\<rparr>"

definition renderWithCustomTemplate :: "page \<Rightarrow> ui \<Rightarrow> ui" where
  "renderWithCustomTemplate p s =
     fold (\<lambda>(result, highlights). appendCard (TemplateCard result highlights))
       (case searchResults p of None \<Rightarrow> [] | Some rs \<Rightarrow> rs) s"

definition renderCard :: "jsval \<times> jsval \<Rightarrow> ui \<Rightarrow> ui" where
  "renderCard rw s =
     (case rw of (result, highlights) \<Rightarrow>
        (case currentTheme s of
           None \<Rightarrow> appendCard (BuiltInCard result highlights) s
         | Some t \<Rightarrow>
             if hasRenderResultCard t
             then appendCard (ThemeCard t result highlights (hasAttachCardListeners t)) s
             else appendCard (BuiltInCard result highlights) s))"

definition renderDefaultCards :: "page \<Rightarrow> ui \<Rightarrow> ui" where
  "renderDefaultCards p s =
     fold renderCard (case searchResults p of None \<Rightarrow> [] | Some rs \<Rightarrow> rs) s"

definition renderSearchResults :: "page \<Rightarrow> ui \<Rightarrow> ui" where
  "renderSearchResults p0 s =
     (if \<not> paginationEl s \<or> searchResultsEl s = None then s
      else (let p = (case beforeRender (config s) of None \<Rightarrow> p0 | Some hook \<Rightarrow> hook p0);
                s1 = s\<lparr>searchResultsEl := Some []\<rparr>;
                hasResults = (case searchResults p of None \<Rightarrow> False | Some rs \<Rightarrow> rs \<noteq> [])
            in if \<not> hasResults \<or> pageTotal p = 0 then s1\<lparr>searchResultsEl := Some [NoResults]\<rparr>
               else (let s2 = (if resultTemplate (config s1) then renderWithCustomTemplate p s1
                               else renderDefaultCards p s1);
                         s3 = emit (PaginationRendered p) s2;
                         s4 = (if didYouMeanEnabled (config s3) then emit (DidYouMeanRendered p) s3
                               else s3)
                     in if afterRender (config s4) then emit (AfterRender p) s4 else s4)))"

text \<open>\<^verbatim>\<open>switchTheme(themeId)\<close>; \<open>switchTheme_store\<close> is its write to the storage.\<close>

definition switchTheme_store :: "string \<Rightarrow> ui \<Rightarrow> ui" where
  "switchTheme_store themeId s =
     (case themeStorageKey (config s) of
        None \<Rightarrow> s
      | Some key \<Rightarrow>
          emit (StorageSet key themeId) (s\<lparr>localStorage := (localStorage s)(key \<mapsto> themeId)\<rparr>))"

definition switchTheme :: "string \<Rightarrow> ui \<Rightarrow> ui" where
  "switchTheme themeId s =
     (let s1 = switchTheme_store themeId s;
          s2 = loadTheme themeId s1
      in case currentPage s2 of
           None \<Rightarrow> s2
         | Some p \<Rightarrow> renderSearchResults p (renderAllFacets p s2))"

subsection \<open>Search, filter, paging and reset\<close>

text \<open>
  Each operation awaits one call of the external client. The outcome of that call is a
  parameter: \<open>Inr\<close> the page it resolves with, \<open>Inl\<close> its rejection. \<open>initialize\<close> takes
  what \<^verbatim>\<open>this.search(queryTerm)\<close> returned, \<open>None\<close> for \<^verbatim>\<open>null\<close>. Two operations that
  overlap in time are not modelled.
\<close>

definition initFacetContainer :: "ui \<Rightarrow> ui" where
  "initFacetContainer s =
     (if hasFacetsContainer s then s\<lparr>facetContainer := Some []\<rparr>
      else emit (Warn ''Facets container element not found'') (s\<lparr>facetContainer := None\<rparr>))"

definition showEmptyState :: "ui \<Rightarrow> ui" where
  "showEmptyState s = s\<lparr>searchResultsEl := map_option (\<lambda>es. [EmptyPrompt]) (searchResultsEl s)\<rparr>"

definition initialize :: "string option \<Rightarrow> page option \<Rightarrow> ui \<Rightarrow> ui" where
  "initialize queryTerm found s =
     (if queryTerm \<noteq> None \<and> queryTerm \<noteq> Some []
      then (case found of
              None \<Rightarrow> s
            | Some p \<Rightarrow>
                (let s1 = s\<lparr>currentPage := Some p\<rparr>;
                     s2 = (if facets p \<noteq> None then renderAllFacets p (initFacetContainer s1) else s1)
                 in emit (ResultsInfo p) (renderSearchResults p s2)))
      else showEmptyState s)"

text \<open>
  \<^verbatim>\<open>filter(facet, reset)\<close>. \<open>filterDates\<close> is its block on the date filter; the platform's
  \<^verbatim>\<open>new Date(text).toISOString()\<close> is the parameter \<open>toISOString\<close>, \<open>None\<close> where it
  throws a RangeError, which the \<^verbatim>\<open>catch\<close> of \<^verbatim>\<open>filter\<close> logs. \<open>showPage\<close> is the sequence
  \<^verbatim>\<open>initFacetContainer\<close>, \<^verbatim>\<open>renderAllFacets\<close>, \<^verbatim>\<open>renderSearchResults\<close>, \<^verbatim>\<open>updateResultsInfo\<close>
  that \<^verbatim>\<open>filter\<close> and the reset button share.
\<close>

definition isSet :: "string option \<Rightarrow> bool" where
  "isSet v = (v \<noteq> None \<and> v \<noteq> Some [])"

definition dateRangeQuery :: "string \<Rightarrow> string \<Rightarrow> string \<Rightarrow> string" where
  "dateRangeQuery fieldName startISO endISO =
     fieldName @ '':['' @ startISO @ '' TO '' @ endISO @ '']''"

definition isoOrThrow :: "(string \<Rightarrow> string option) \<Rightarrow> string \<Rightarrow> js_error + string" where
  "isoOrThrow toISOString input =
     (case toISOString input of None \<Rightarrow> Inl RangeError | Some formatted \<Rightarrow> Inr formatted)"

definition filterDates :: "(string \<Rightarrow> string option) \<Rightarrow> ui \<Rightarrow> js_error + ui" where
  "filterDates toISOString s =
     (if dateFilterEnabled (config s)
      then (if isSet (startDate s) \<or> isSet (endDate s)
            then bindE (if isSet (startDate s)
                        then isoOrThrow toISOString (the (startDate s) @ ''T00:00:00Z'')
                        else Inr ''*'') (\<lambda>startISO.
                 bindE (if isSet (endDate s)
                        then isoOrThrow toISOString (the (endDate s) @ ''T23:59:59Z'')
                        else Inr ''*'') (\<lambda>endISO.
                   Inr (emit (SetCustomParams (solrFilterParam (config s))
                          (dateRangeQuery (dateFieldName (config s)) startISO endISO)) s)))
            else Inr (emit (DeleteCustomParams (solrFilterParam (config s))) s))
      else Inr s)"

definition showPage :: "page \<Rightarrow> ui \<Rightarrow> ui" where
  "showPage p s =
     emit (ResultsInfo p) (renderSearchResults p (renderAllFacets p (initFacetContainer s)))"

definition scroll :: "ui \<Rightarrow> ui" where
  "scroll s = (if smoothScrolling (config s) then emit ScrollToTop s else s)"

definition filter_ui ::
  "(string \<Rightarrow> string option) \<Rightarrow> facet \<Rightarrow> bool \<Rightarrow> js_error + page \<Rightarrow> ui \<Rightarrow> ui" where
  "filter_ui toISOString facet reset response s =
     (let values = (if reset then [] else checked s)
      in case filterDates toISOString s of
           Inl e \<Rightarrow> emit (ConsoleError ''Filter error:'') s
         | Inr s1 \<Rightarrow>
             (let s2 = emit (FacetFilter facet values) s1
              in case response of
                   Inl e \<Rightarrow> emit (ConsoleError ''Filter error:'') s2
                 | Inr p \<Rightarrow> scroll (showPage p s2)))"

text \<open>
  The click listener of a pagination button (\<^verbatim>\<open>linkPagination\<close>) and the handler of the
  reset-all button (\<^verbatim>\<open>initFacetContainer\<close>).
\<close>

definition paginationClick :: "js_error + page \<Rightarrow> ui \<Rightarrow> ui" where
  "paginationClick response s =
     (case response of
        Inl e \<Rightarrow> s
      | Inr p \<Rightarrow> scroll (emit (ResultsInfo p) (renderSearchResults p s)))"

definition resetAllFacets :: "js_error + page \<Rightarrow> ui \<Rightarrow> ui" where
  "resetAllFacets response s =
     (let s1 = (if dateFilterEnabled (config s)
                then emit (DeleteCustomParams (solrFilterParam (config s)))
                       (s\<lparr>startDate := map_option (\<lambda>v. []) (startDate s),
                          endDate := map_option (\<lambda>v. []) (endDate s)\<rparr>)
                else s)
      in case response of
           Inl e \<Rightarrow> s1
         | Inr p \<Rightarrow> showPage p s1)"

subsection \<open>An example session\<close>

text \<open>
  The three themes of the repository, a configuration, a document with the containers of the
  page, and the state after the constructor has loaded the default theme and
  \<^verbatim>\<open>initialize\<close> has shown the first page of a search.
\<close>

definition defaultTheme :: theme where
  "defaultTheme = \<lparr>themeName = ''Default'', cssFile = Some ''themes/default/theme.css'',
     hasInit = True, hasDestroy = True, hasRenderFacet = False, hasRenderResultCard = False,
     hasAttachFacetListeners = False, hasAttachCardListeners = False\<rparr>"

definition minimalTheme :: theme where
  "minimalTheme = \<lparr>themeName = ''Minimal Zen'', cssFile = Some ''themes/minimal/theme.css'',
     hasInit = True, hasDestroy = True, hasRenderFacet = True, hasRenderResultCard = True,
     hasAttachFacetListeners = True, hasAttachCardListeners = True\<rparr>"

definition magazineTheme :: theme where
  "magazineTheme = \<lparr>themeName = ''Magazine'', cssFile = Some ''themes/magazine/theme.css'',
     hasInit = True, hasDestroy = True, hasRenderFacet = True, hasRenderResultCard = True,
     hasAttachFacetListeners = True, hasAttachCardListeners = True\<rparr>"

definition smartSearchThemes :: "string \<rightharpoonup> theme" where
  "smartSearchThemes =
     [''default'' \<mapsto> defaultTheme, ''minimal'' \<mapsto> minimalTheme, ''magazine'' \<mapsto> magazineTheme]"

definition sampleSettings :: settings where
  "sampleSettings = \<lparr>themeStorageKey = Some ''smartsearch-theme'', dateFilterEnabled = True,
     dateFieldName = ''meta_date'', solrFilterParam = ''fq'',
     displayNames = [''mime_type'' \<mapsto> ''Filetype''], beforeRender = None, afterRender = False,
     resultTemplate = False, didYouMeanEnabled = True, smoothScrolling = True\<rparr>"

definition newUI :: ui where
  "newUI = \<lparr>config = sampleSettings, themeRegistry = smartSearchThemes, currentTheme = None,
     currentThemeId = None, loadedThemeCSS = [], currentPage = None, facetContainer = None,
     body = Some [], loading = False, domContentLoaded = [], links = [], fresh = 0,
     hasFacetsContainer = True, searchResultsEl = Some [], paginationEl = True,
     startDate = Some [], endDate = Some [], checked = [], localStorage = Map.empty,
     trace = []\<rparr>"

definition mimeFacet :: facet where
  "mimeFacet = \<lparr>facetName = ''mime_type'', displayName = None,
     counts = [(''pdf'', 3), (''html'', 9)], selectedValues = []\<rparr>"

definition firstPage :: page where
  "firstPage = \<lparr>facets = Some [mimeFacet],
     searchResults = Some [(JObj [(''title'', JStr ''Architecture'')], JObj [])],
     responseNumRows = 12, numRows = 0, totalHits = 0, totalResults = 0, total = 0,
     didYouMean = []\<rparr>"

definition pdfPage :: page where
  "pdfPage = \<lparr>facets = Some [mimeFacet\<lparr>selectedValues := [''pdf'']\<rparr>],
     searchResults = Some [(JObj [(''title'', JStr ''Manual'')], JObj [])],
     responseNumRows = 3, numRows = 0, totalHits = 0, totalResults = 0, total = 0,
     didYouMean = []\<rparr>"

definition started :: ui where
  "started = initialize (Some ''architecture'') (Some firstPage) (loadTheme ''default'' newUI)"

subsection \<open>What rendering and the theme lifecycle do to the state\<close>

text \<open>
  The markup the render dispatcher produces under an active theme: the theme's own where it
  overrides the render point, the built-in one otherwise.
\<close>

definition facetMarkup :: "theme option \<Rightarrow> facet \<Rightarrow> elem" where
  "facetMarkup active f =
     (case active of
        None \<Rightarrow> BuiltInFacet f
      | Some t \<Rightarrow> if hasRenderFacet t then ThemeFacet t f (hasAttachFacetListeners t)
                  else BuiltInFacet f)"

definition cardMarkup :: "theme option \<Rightarrow> jsval \<times> jsval \<Rightarrow> elem" where
  "cardMarkup active rw =
     (case active of
        None \<Rightarrow> BuiltInCard (fst rw) (snd rw)
      | Some t \<Rightarrow> if hasRenderResultCard t
                  then ThemeCard t (fst rw) (snd rw) (hasAttachCardListeners t)
                  else BuiltInCard (fst rw) (snd rw))"

lemma renderFacet_eq:
  "renderFacet f s =
     s\<lparr>facetContainer := map_option (\<lambda>es. es @ [facetMarkup (currentTheme s) f]) (facetContainer s)\<rparr>"
  by (cases "facetContainer s")
     (auto simp: renderFacet_def renderFacetDefault_def appendFacet_def facetMarkup_def
           split: option.splits)

lemma fold_renderFacet_eq:
  "fold (\<lambda>f. renderFacet (g f)) fs s =
     s\<lparr>facetContainer :=
         map_option (\<lambda>es. es @ map (\<lambda>f. facetMarkup (currentTheme s) (g f)) fs) (facetContainer s)\<rparr>"
proof (induction fs arbitrary: s)
  case Nil
  show ?case by (cases "facetContainer s") simp_all
next
  case (Cons f fs)
  have "fold (\<lambda>f. renderFacet (g f)) (f # fs) s
          = fold (\<lambda>f. renderFacet (g f)) fs (renderFacet (g f) s)"
    by simp
  also have "\<dots> = (renderFacet (g f) s)\<lparr>facetContainer :=
         map_option (\<lambda>es. es @ map (\<lambda>x. facetMarkup (currentTheme (renderFacet (g f) s)) (g x)) fs)
           (facetContainer (renderFacet (g f) s))\<rparr>"
    by (rule Cons.IH)
  also have "\<dots> = s\<lparr>facetContainer :=
         map_option (\<lambda>es. es @ map (\<lambda>f. facetMarkup (currentTheme s) (g f)) (f # fs))
           (facetContainer s)\<rparr>"
    by (cases "facetContainer s") (simp_all add: renderFacet_eq)
  finally show ?case .
qed

lemma renderAllFacets_eq:
  "renderAllFacets p s =
     (case facets p of
        None \<Rightarrow> s
      | Some fs \<Rightarrow>
          if fs = [] then s
          else s\<lparr>facetContainer :=
                   map_option
                     (\<lambda>es. es @ map (\<lambda>f. facetMarkup (currentTheme s) (facetToRender (config s) f)) fs)
                     (facetContainer s),
                 trace := trace s @ (if dateFilterEnabled (config s) then [DateFilterSetup p] else [])\<rparr>)"
  by (cases "facetContainer s")
     (auto simp: renderAllFacets_def fold_renderFacet_eq emit_def Let_def split: option.splits)

lemma renderCard_eq:
  "renderCard rw s =
     s\<lparr>searchResultsEl := map_option (\<lambda>es. es @ [cardMarkup (currentTheme s) rw]) (searchResultsEl s)\<rparr>"
  by (cases rw) (auto simp: renderCard_def appendCard_def cardMarkup_def split: option.splits)

lemma fold_renderCard_eq:
  "fold renderCard rs s =
     s\<lparr>searchResultsEl :=
         map_option (\<lambda>es. es @ map (cardMarkup (currentTheme s)) rs) (searchResultsEl s)\<rparr>"
proof (induction rs arbitrary: s)
  case Nil
  show ?case by (cases "searchResultsEl s") simp_all
next
  case (Cons r rs)
  have "fold renderCard (r # rs) s = fold renderCard rs (renderCard r s)"
    by simp
  also have "\<dots> = (renderCard r s)\<lparr>searchResultsEl :=
         map_option (\<lambda>es. es @ map (cardMarkup (currentTheme (renderCard r s))) rs)
           (searchResultsEl (renderCard r s))\<rparr>"
    by (rule Cons.IH)
  also have "\<dots> = s\<lparr>searchResultsEl :=
         map_option (\<lambda>es. es @ map (cardMarkup (currentTheme s)) (r # rs)) (searchResultsEl s)\<rparr>"
    by (cases "searchResultsEl s") (simp_all add: renderCard_eq)
  finally show ?case .
qed

lemma fold_templateCard_eq:
  "fold (\<lambda>(result, highlights). appendCard (TemplateCard result highlights)) rs s =
     s\<lparr>searchResultsEl :=
         map_option (\<lambda>es. es @ map (\<lambda>rw. TemplateCard (fst rw) (snd rw)) rs) (searchResultsEl s)\<rparr>"
proof (induction rs arbitrary: s)
  case Nil
  show ?case by (cases "searchResultsEl s") simp_all
next
  case (Cons r rs)
  let ?F = "\<lambda>(result, highlights). appendCard (TemplateCard result highlights)"
  have "fold ?F (r # rs) s = fold ?F rs (appendCard (TemplateCard (fst r) (snd r)) s)"
    by (simp add: case_prod_beta)
  also have "\<dots> = (appendCard (TemplateCard (fst r) (snd r)) s)\<lparr>searchResultsEl :=
         map_option (\<lambda>es. es @ map (\<lambda>rw. TemplateCard (fst rw) (snd rw)) rs)
           (searchResultsEl (appendCard (TemplateCard (fst r) (snd r)) s))\<rparr>"
    by (rule Cons.IH)
  also have "\<dots> = s\<lparr>searchResultsEl :=
         map_option (\<lambda>es. es @ map (\<lambda>rw. TemplateCard (fst rw) (snd rw)) (r # rs))
           (searchResultsEl s)\<rparr>"
    by (cases "searchResultsEl s") (simp_all add: appendCard_def)
  finally show ?case .
qed

definition resultsMarkup :: "settings \<Rightarrow> theme option \<Rightarrow> page \<Rightarrow> elem list" where
  "resultsMarkup c active p =
     (case searchResults p of
        None \<Rightarrow> [NoResults]
      | Some rs \<Rightarrow>
          if rs = [] \<or> pageTotal p = 0 then [NoResults]
          else if resultTemplate c then map (\<lambda>rw. TemplateCard (fst rw) (snd rw)) rs
          else map (cardMarkup active) rs)"

definition renderEvents :: "settings \<Rightarrow> page \<Rightarrow> event list" where
  "renderEvents c p =
     (if (case searchResults p of None \<Rightarrow> True | Some rs \<Rightarrow> rs = []) \<or> pageTotal p = 0 then []
      else [PaginationRendered p] @ (if didYouMeanEnabled c then [DidYouMeanRendered p] else []) @
           (if afterRender c then [AfterRender p] else []))"

definition hooked :: "settings \<Rightarrow> page \<Rightarrow> page" where
  "hooked c p = (case beforeRender c of None \<Rightarrow> p | Some hook \<Rightarrow> hook p)"

lemma renderSearchResults_eq:
  "renderSearchResults p s =
     (if \<not> paginationEl s \<or> searchResultsEl s = None then s
      else s\<lparr>searchResultsEl := Some (resultsMarkup (config s) (currentTheme s) (hooked (config s) p)),
             trace := trace s @ renderEvents (config s) (hooked (config s) p)\<rparr>)"
  by (auto simp: renderSearchResults_def renderWithCustomTemplate_def renderDefaultCards_def
        fold_renderCard_eq fold_templateCard_eq resultsMarkup_def renderEvents_def hooked_def
        emit_def Let_def split: option.splits)

text \<open>The events and the state that \<^verbatim>\<open>_unloadTheme\<close> and \<^verbatim>\<open>_loadTheme\<close> leave.\<close>

fun removedEvents :: "nat list \<Rightarrow> link list \<Rightarrow> event list" where
  "removedEvents [] ls = []"
| "removedEvents (n # ns) ls =
     (if n \<in> set (map node ls)
      then LinkRemoved n # removedEvents ns (filter (\<lambda>l. node l \<noteq> n) ls)
      else removedEvents ns ls)"

lemma fold_removeLink_eq:
  "fold removeLink ns s =
     s\<lparr>links := filter (\<lambda>l. node l \<notin> set ns) (links s),
       trace := trace s @ removedEvents ns (links s)\<rparr>"
proof (induction ns arbitrary: s)
  case Nil
  show ?case by simp
next
  case (Cons n ns)
  have "fold removeLink (n # ns) s = fold removeLink ns (removeLink n s)"
    by simp
  also have "\<dots> = (removeLink n s)\<lparr>links := filter (\<lambda>l. node l \<notin> set ns) (links (removeLink n s)),
       trace := trace (removeLink n s) @ removedEvents ns (links (removeLink n s))\<rparr>"
    by (rule Cons.IH)
  also have "\<dots> = s\<lparr>links := filter (\<lambda>l. node l \<notin> set (n # ns)) (links s),
       trace := trace s @ removedEvents (n # ns) (links s)\<rparr>"
  proof (cases "n \<in> set (map node (links s))")
    case True
    then show ?thesis
      by (simp add: removeLink_def emit_def conj_commute)
  next
    case False
    then have "filter (\<lambda>l. node l \<notin> set ns) (links s)
                 = filter (\<lambda>l. node l \<noteq> n \<and> node l \<notin> set ns) (links s)"
      by (intro filter_cong) auto
    with False show ?thesis
      by (simp add: removeLink_def)
  qed
  finally show ?case .
qed

definition unmarked :: "ui \<Rightarrow> string list option" where
  "unmarked s =
     (case currentTheme s of
        None \<Rightarrow> body s
      | Some t \<Rightarrow>
          (case (body s, currentThemeId s) of
             (Some cs, Some i) \<Rightarrow> if i \<noteq> [] then Some (classRemove (themeClass i) cs) else Some cs
           | _ \<Rightarrow> body s))"

definition linksLeft :: "ui \<Rightarrow> link list" where
  "linksLeft s =
     (case currentTheme s of
        None \<Rightarrow> links s
      | Some t \<Rightarrow> filter (\<lambda>l. node l \<notin> set (loadedThemeCSS s)) (links s))"

definition deactivationEvents :: "ui \<Rightarrow> event list" where
  "deactivationEvents s =
     (case currentTheme s of
        None \<Rightarrow> []
      | Some t \<Rightarrow>
          (if hasDestroy t then [HookDestroy t] else []) @
          (case (body s, currentThemeId s) of
             (Some cs, Some i) \<Rightarrow> if i \<noteq> [] then [ClassRemoved (themeClass i)] else []
           | _ \<Rightarrow> []) @
          removedEvents (loadedThemeCSS s) (links s))"

lemma unloadTheme_eq:
  "unloadTheme s =
     s\<lparr>body := unmarked s, links := linksLeft s,
       loadedThemeCSS := (case currentTheme s of None \<Rightarrow> loadedThemeCSS s | Some t \<Rightarrow> []),
       currentTheme := None,
       currentThemeId := (case currentTheme s of None \<Rightarrow> currentThemeId s | Some t \<Rightarrow> None),
       trace := trace s @ deactivationEvents s\<rparr>"
proof (cases "currentTheme s")
  case None
  then show ?thesis
    by (cases s) (simp add: unloadTheme_def unmarked_def linksLeft_def deactivationEvents_def)
next
  case (Some t)
  then show ?thesis
    by (auto simp: unloadTheme_def fold_removeLink_eq unmarked_def linksLeft_def
          deactivationEvents_def emit_def Let_def split: option.splits)
qed

definition newLinks :: "string \<Rightarrow> string \<Rightarrow> ui \<Rightarrow> link list" where
  "newLinks file themeId s =
     (if themeId \<in> set (map dataTheme (links s)) then []
      else [\<lparr>node = fresh s, href = file, dataTheme = themeId\<rparr>])"

lemma loadThemeCSS_eq:
  "loadThemeCSS file themeId s =
     s\<lparr>links := links s @ newLinks file themeId s,
       fresh := fresh s + length (newLinks file themeId s),
       loadedThemeCSS := loadedThemeCSS s @ map node (newLinks file themeId s),
       trace := trace s @ map LinkAppended (newLinks file themeId s)\<rparr>"
  by (cases s) (simp add: loadThemeCSS_def newLinks_def emit_def Let_def)

definition applyEvents :: "string \<Rightarrow> ui \<Rightarrow> event list" where
  "applyEvents themeId s =
     (case body s of
        None \<Rightarrow> []
      | Some cs \<Rightarrow>
          ClassAdded (themeClass themeId) #
          (case currentTheme s of None \<Rightarrow> [] | Some t \<Rightarrow> if hasInit t then [HookInit t] else []))"

lemma applyThemeClass_eq:
  "applyThemeClass themeId s =
     s\<lparr>body := map_option (classAdd (themeClass themeId)) (body s),
       domContentLoaded :=
         domContentLoaded s @ (if body s = None \<and> loading s then [themeId] else []),
       trace := trace s @ applyEvents themeId s\<rparr>"
  by (cases s)
     (auto simp: applyThemeClass_def applyClass_def applyEvents_def emit_def Let_def
        split: option.splits)

lemma unloadTheme_inactive: "currentTheme s = None \<Longrightarrow> unloadTheme s = s"
  by (simp add: unloadTheme_def)

definition cssStep :: "theme \<Rightarrow> string \<Rightarrow> ui \<Rightarrow> ui" where
  "cssStep theme themeId s =
     (case cssFile theme of None \<Rightarrow> s | Some file \<Rightarrow> loadThemeCSS file themeId s)"

lemma findTheme_registered: "registry themeId = Some theme \<Longrightarrow> findTheme registry themeId = Some theme"
  by (simp add: findTheme_def)

lemma findTheme_inherited:
  "registry themeId = None \<Longrightarrow> themeId \<in> set inheritedNames \<Longrightarrow>
   findTheme registry themeId = Some (inheritedTheme themeId)"
  by (simp add: findTheme_def)

lemma loadTheme_registered:
  assumes "findTheme (themeRegistry s) themeId = Some new"
  shows "loadTheme themeId s =
     emit (Log (loadedMessage themeId))
       (applyThemeClass themeId
          ((cssStep new themeId (unloadTheme s))
             \<lparr>currentTheme := Some new, currentThemeId := Some themeId\<rparr>))"
proof (cases "currentTheme s")
  case None
  with assms show ?thesis
    by (simp add: loadTheme_def unloadTheme_inactive cssStep_def Let_def)
next
  case (Some old)
  with assms show ?thesis
    by (simp add: loadTheme_def cssStep_def Let_def)
qed

lemma cssStep_eq:
  "cssStep theme themeId s =
     s\<lparr>links := links s @ (case cssFile theme of None \<Rightarrow> [] | Some f \<Rightarrow> newLinks f themeId s),
       fresh := fresh s + length (case cssFile theme of None \<Rightarrow> [] | Some f \<Rightarrow> newLinks f themeId s),
       loadedThemeCSS :=
         loadedThemeCSS s @ map node (case cssFile theme of None \<Rightarrow> [] | Some f \<Rightarrow> newLinks f themeId s),
       trace :=
         trace s @ map LinkAppended (case cssFile theme of None \<Rightarrow> [] | Some f \<Rightarrow> newLinks f themeId s)\<rparr>"
  by (cases "cssFile theme") (simp_all add: cssStep_def loadThemeCSS_eq)

fun isHook :: "event \<Rightarrow> bool" where
  "isHook (HookInit t) = True"
| "isHook (HookDestroy t) = True"
| "isHook e = False"

definition hookCalls :: "ui \<Rightarrow> event list" where
  "hookCalls s = filter isHook (trace s)"

lemma removedEvents_no_hooks: "filter isHook (removedEvents ns ls) = []"
  by (induction ns arbitrary: ls) simp_all

lemma appended_no_hooks: "filter isHook (map LinkAppended ls) = []"
  by (induction ls) simp_all

lemma loadTheme_frame:
  "config (loadTheme themeId s) = config s \<and>
   themeRegistry (loadTheme themeId s) = themeRegistry s \<and>
   currentPage (loadTheme themeId s) = currentPage s \<and>
   facetContainer (loadTheme themeId s) = facetContainer s \<and>
   searchResultsEl (loadTheme themeId s) = searchResultsEl s \<and>
   paginationEl (loadTheme themeId s) = paginationEl s \<and>
   localStorage (loadTheme themeId s) = localStorage s"
proof (cases "findTheme (themeRegistry s) themeId")
  case None
  then show ?thesis by (simp add: loadTheme_def emit_def)
next
  case (Some new)
  show ?thesis
    unfolding loadTheme_registered [OF Some] emit_def applyThemeClass_eq cssStep_eq unloadTheme_eq
    by simp
qed

lemma loadTheme_current:
  "findTheme (themeRegistry s) themeId = Some new \<Longrightarrow>
   currentTheme (loadTheme themeId s) = Some new \<and>
   currentThemeId (loadTheme themeId s) = Some themeId"
  unfolding emit_def applyThemeClass_eq cssStep_eq unloadTheme_eq
  by (simp add: loadTheme_registered emit_def applyThemeClass_eq)

lemma loadTheme_trace_extends: "\<exists>es. trace (loadTheme themeId s) = trace s @ es"
proof (cases "findTheme (themeRegistry s) themeId")
  case None
  then show ?thesis by (simp add: loadTheme_def emit_def)
next
  case (Some new)
  show ?thesis
    unfolding loadTheme_registered [OF Some] emit_def applyThemeClass_eq cssStep_eq unloadTheme_eq
    by simp
qed

lemma loadTheme_hookCalls:
  assumes "findTheme (themeRegistry s) themeId = Some new" and "body s = Some cs"
  shows "hookCalls (loadTheme themeId s) =
           hookCalls s @
           (case currentTheme s of
              None \<Rightarrow> []
            | Some old \<Rightarrow> if hasDestroy old then [HookDestroy old] else []) @
           (if hasInit new then [HookInit new] else [])"
proof -
  have u: "unmarked s \<noteq> None"
    using assms(2) by (simp add: unmarked_def split: option.splits)
  have d: "filter isHook (deactivationEvents s) =
           (case currentTheme s of
              None \<Rightarrow> []
            | Some old \<Rightarrow> if hasDestroy old then [HookDestroy old] else [])"
    by (simp add: deactivationEvents_def removedEvents_no_hooks split: option.splits)
  show ?thesis
    unfolding hookCalls_def loadTheme_registered [OF assms(1)] emit_def applyThemeClass_eq
      cssStep_eq unloadTheme_eq
    using u by (auto simp add: d applyEvents_def appended_no_hooks)
qed

definition sheets :: "string \<Rightarrow> ui \<Rightarrow> nat" where
  "sheets themeId s = length (filter (\<lambda>l. dataTheme l = themeId) (links s))"

lemma loadTheme_sheets: "sheets themeId (loadTheme themeId s) \<le> max 1 (sheets themeId s)"
proof (cases "findTheme (themeRegistry s) themeId")
  case None
  then show ?thesis by (simp add: loadTheme_def emit_def sheets_def)
next
  case (Some new)
  let ?P = "\<lambda>l. dataTheme l = themeId"
  have both: "length (filter (\<lambda>x. Q x \<and> ?P x) ls) \<le> length (filter ?P ls)"
    for Q and ls :: "link list"
    by (induction ls) auto
  have left: "length (filter ?P (linksLeft s)) \<le> length (filter ?P (links s))"
    by (cases "currentTheme s") (simp_all add: linksLeft_def both)
  have none: "themeId \<notin> set (map dataTheme ls) \<Longrightarrow> filter ?P ls = []" for ls :: "link list"
    by (induction ls) auto
  have links: "links (loadTheme themeId s) =
      linksLeft s @ (case cssFile new of None \<Rightarrow> []
                     | Some f \<Rightarrow> newLinks f themeId (unloadTheme s))"
    unfolding loadTheme_registered [OF Some] emit_def applyThemeClass_eq cssStep_eq
    by (simp add: unloadTheme_eq)
  have ul: "links (unloadTheme s) = linksLeft s"
    by (simp add: unloadTheme_eq)
  show ?thesis
  proof (cases "cssFile new")
    case None
    with links left show ?thesis by (simp add: sheets_def)
  next
    case (Some f)
    show ?thesis
    proof (cases "themeId \<in> set (map dataTheme (linksLeft s))")
      case True
      with links Some left ul show ?thesis by (simp add: sheets_def newLinks_def)
    next
      case False
      with links Some none [OF False] ul show ?thesis by (simp add: sheets_def newLinks_def)
    qed
  qed
qed

lemma loadTheme_body:
  assumes "findTheme (themeRegistry s) themeId = Some new"
  shows "body (loadTheme themeId s) = map_option (classAdd (themeClass themeId)) (unmarked s)"
  unfolding loadTheme_registered [OF assms] emit_def applyThemeClass_eq cssStep_eq
  by (simp add: unloadTheme_eq)

definition rerender :: "ui \<Rightarrow> ui" where
  "rerender s =
     (case currentPage s of None \<Rightarrow> s | Some p \<Rightarrow> renderSearchResults p (renderAllFacets p s))"

lemma switchTheme_eq:
  "switchTheme themeId s = rerender (loadTheme themeId (switchTheme_store themeId s))"
  by (simp add: switchTheme_def rerender_def Let_def)

lemma renderAllFacets_frame:
  "config (renderAllFacets p s) = config s \<and>
   currentTheme (renderAllFacets p s) = currentTheme s \<and>
   currentThemeId (renderAllFacets p s) = currentThemeId s \<and>
   currentPage (renderAllFacets p s) = currentPage s \<and>
   body (renderAllFacets p s) = body s \<and>
   links (renderAllFacets p s) = links s \<and>
   searchResultsEl (renderAllFacets p s) = searchResultsEl s \<and>
   paginationEl (renderAllFacets p s) = paginationEl s \<and>
   localStorage (renderAllFacets p s) = localStorage s \<and>
   hookCalls (renderAllFacets p s) = hookCalls s \<and>
   (\<exists>es. trace (renderAllFacets p s) = trace s @ es)"
  by (simp add: renderAllFacets_eq hookCalls_def split: option.splits)

lemma renderSearchResults_frame:
  "config (renderSearchResults p s) = config s \<and>
   currentTheme (renderSearchResults p s) = currentTheme s \<and>
   currentThemeId (renderSearchResults p s) = currentThemeId s \<and>
   currentPage (renderSearchResults p s) = currentPage s \<and>
   body (renderSearchResults p s) = body s \<and>
   links (renderSearchResults p s) = links s \<and>
   facetContainer (renderSearchResults p s) = facetContainer s \<and>
   localStorage (renderSearchResults p s) = localStorage s \<and>
   hookCalls (renderSearchResults p s) = hookCalls s \<and>
   (\<exists>es. trace (renderSearchResults p s) = trace s @ es)"
  by (simp add: renderSearchResults_eq hookCalls_def renderEvents_def)

lemma rerender_frame:
  "currentTheme (rerender s) = currentTheme s \<and>
   currentThemeId (rerender s) = currentThemeId s \<and>
   currentPage (rerender s) = currentPage s \<and>
   body (rerender s) = body s \<and>
   links (rerender s) = links s \<and>
   localStorage (rerender s) = localStorage s \<and>
   hookCalls (rerender s) = hookCalls s \<and>
   (\<exists>es. trace (rerender s) = trace s @ es)"
proof (cases "currentPage s")
  case None
  then show ?thesis by (simp add: rerender_def)
next
  case (Some p)
  obtain es where es: "trace (renderAllFacets p s) = trace s @ es"
    using renderAllFacets_frame [of p s] by blast
  obtain es' where es': "trace (renderSearchResults p (renderAllFacets p s))
      = trace (renderAllFacets p s) @ es'"
    using renderSearchResults_frame [of p "renderAllFacets p s"] by blast
  show ?thesis
    using Some es es'
    by (simp add: rerender_def renderSearchResults_frame renderAllFacets_frame)
qed

lemma switchTheme_store_frame:
  "config (switchTheme_store themeId s) = config s \<and>
   themeRegistry (switchTheme_store themeId s) = themeRegistry s \<and>
   currentTheme (switchTheme_store themeId s) = currentTheme s \<and>
   currentThemeId (switchTheme_store themeId s) = currentThemeId s \<and>
   currentPage (switchTheme_store themeId s) = currentPage s \<and>
   facetContainer (switchTheme_store themeId s) = facetContainer s \<and>
   body (switchTheme_store themeId s) = body s \<and>
   links (switchTheme_store themeId s) = links s"
  by (simp add: switchTheme_store_def emit_def split: option.splits)

lemma loadTheme_unknown:
  "findTheme (themeRegistry s) themeId = None \<Longrightarrow>
   loadTheme themeId s = s\<lparr>trace := trace s @ [Warn (notFoundMessage themeId)]\<rparr>"
  by (simp add: loadTheme_def emit_def)

section \<open>Date range of the filter\<close>






section \<open>Theme activation and switching\<close>

text \<open>
  An id that the read of the registry does not find, which is one that is neither registered
  nor the name of an inherited member, changes nothing but the console: the state is the one
  before with the warning added. With a storage key configured, \<^verbatim>\<open>switchTheme\<close> writes the
  requested id under that key as its first effect, whatever the id, and the value is still
  there when it returns.
\<close>

lemma loadTheme_not_found_only_warns:
  assumes "themeRegistry s themeId = None" and "themeId \<notin> set inheritedNames"
  shows "loadTheme themeId s = s\<lparr>trace := trace s @ [Warn (notFoundMessage themeId)]\<rparr>"
  using assms by (simp add: loadTheme_unknown findTheme_def)

lemma switchTheme_stores_first:
  assumes "themeStorageKey (config s) = Some key"
  shows "localStorage (switchTheme themeId s) key = Some themeId"
    and "\<exists>rest. trace (switchTheme themeId s) = trace s @ StorageSet key themeId # rest"
proof -
  let ?a = "switchTheme_store themeId s"
  let ?b = "loadTheme themeId ?a"
  have a: "localStorage ?a key = Some themeId" "trace ?a = trace s @ [StorageSet key themeId]"
    using assms by (simp_all add: switchTheme_store_def emit_def)
  obtain es where es: "trace ?b = trace ?a @ es"
    using loadTheme_trace_extends [of themeId ?a] by blast
  obtain es' where es': "trace (rerender ?b) = trace ?b @ es'"
    using rerender_frame [of ?b] by blast
  show "localStorage (switchTheme themeId s) key = Some themeId"
    using a(1) by (simp add: switchTheme_eq rerender_frame loadTheme_frame)
  show "\<exists>rest. trace (switchTheme themeId s) = trace s @ StorageSet key themeId # rest"
    using a(2) es es' by (simp add: switchTheme_eq)
qed

text \<open>
  Loading a theme that the read of the registry finds emits, in this order, the events of
  the deactivation of the theme that was active, the stylesheet element it adds, the marker
  class and the \<^verbatim>\<open>init\<close> hook of the new theme, and the console line.
\<close>

lemma loadTheme_trace:
  assumes "findTheme (themeRegistry s) themeId = Some new"
  shows "trace (loadTheme themeId s) =
           trace s @ deactivationEvents s @
           map LinkAppended
             (case cssFile new of None \<Rightarrow> [] | Some f \<Rightarrow> newLinks f themeId (unloadTheme s)) @
           (case unmarked s of
              None \<Rightarrow> []
            | Some cs \<Rightarrow> ClassAdded (themeClass themeId) # (if hasInit new then [HookInit new] else [])) @
           [Log (loadedMessage themeId)]"
  unfolding loadTheme_registered [OF assms] emit_def applyThemeClass_eq cssStep_eq
  by (simp add: unloadTheme_eq applyEvents_def split: option.splits)

lemma loadTheme_inherited:
  assumes "themeRegistry s themeId = None" and "themeId \<in> set inheritedNames"
  shows "loadTheme themeId s =
           emit (Log (loadedMessage themeId))
             (applyThemeClass themeId
                ((unloadTheme s)\<lparr>currentTheme := Some (inheritedTheme themeId),
                                 currentThemeId := Some themeId\<rparr>))"
    and "currentTheme (loadTheme themeId s) = Some (inheritedTheme themeId)"
    and "currentThemeId (loadTheme themeId s) = Some themeId"
    and "hookCalls (loadTheme themeId s) =
           hookCalls s @
           (case currentTheme s of
              None \<Rightarrow> []
            | Some old \<Rightarrow> if hasDestroy old then [HookDestroy old] else [])"
    and "loadTheme themeId s \<noteq> s\<lparr>trace := trace s @ [Warn (notFoundMessage themeId)]\<rparr>"
proof -
  have found: "findTheme (themeRegistry s) themeId = Some (inheritedTheme themeId)"
    using assms by (rule findTheme_inherited)
  have plain: "cssFile (inheritedTheme themeId) = None" "\<not> hasInit (inheritedTheme themeId)"
    by (simp_all add: inheritedTheme_def)
  have css: "cssStep (inheritedTheme themeId) themeId (unloadTheme s) = unloadTheme s"
    by (simp add: cssStep_def plain)
  show "loadTheme themeId s =
           emit (Log (loadedMessage themeId))
             (applyThemeClass themeId
                ((unloadTheme s)\<lparr>currentTheme := Some (inheritedTheme themeId),
                                 currentThemeId := Some themeId\<rparr>))"
    using loadTheme_registered [OF found] by (simp only: css)
  show "currentTheme (loadTheme themeId s) = Some (inheritedTheme themeId)"
    and "currentThemeId (loadTheme themeId s) = Some themeId"
    using loadTheme_current [OF found] by simp_all
  have tr: "trace (loadTheme themeId s) =
           trace s @ deactivationEvents s @
           (case unmarked s of None \<Rightarrow> [] | Some cs \<Rightarrow> [ClassAdded (themeClass themeId)]) @
           [Log (loadedMessage themeId)]"
    using loadTheme_trace [OF found] by (simp add: plain split: option.splits)
  have d: "filter isHook (deactivationEvents s) =
           (case currentTheme s of
              None \<Rightarrow> []
            | Some old \<Rightarrow> if hasDestroy old then [HookDestroy old] else [])"
    by (simp add: deactivationEvents_def removedEvents_no_hooks split: option.splits)
  show "hookCalls (loadTheme themeId s) =
           hookCalls s @
           (case currentTheme s of
              None \<Rightarrow> []
            | Some old \<Rightarrow> if hasDestroy old then [HookDestroy old] else [])"
    by (simp add: hookCalls_def tr d split: option.splits)
  have "last (trace (loadTheme themeId s)) = Log (loadedMessage themeId)"
    by (simp add: tr)
  moreover have "last (trace (s\<lparr>trace := trace s @ [Warn (notFoundMessage themeId)]\<rparr>))
      = Warn (notFoundMessage themeId)"
    by simp
  ultimately show "loadTheme themeId s \<noteq> s\<lparr>trace := trace s @ [Warn (notFoundMessage themeId)]\<rparr>"
    by (metis event.distinct(1))
qed

text \<open>
  C8. A request to activate an id that is not registered is meant to leave everything as
  it is and to write a warning. For an unregistered id that is the name of a member the
  registry object inherits (\<^verbatim>\<open>constructor\<close>, \<^verbatim>\<open>toString\<close>, ...) the read
  \<^verbatim>\<open>this.themeRegistry[themeId]\<close> gives that member and the test \<^verbatim>\<open>if (!theme)\<close> lets it
  pass: no warning is written, the active theme is deactivated, its \<^verbatim>\<open>destroy\<close> hook runs
  when it has one, the member becomes the current theme under the requested id, and the
  console reports the theme as loaded. The state after is never the one before with the
  warning added.
\<close>

theorem loadTheme_inherited_name_replaces_active_theme:
  assumes "themeRegistry s themeId = None" and "themeId \<in> set inheritedNames"
  shows "loadTheme themeId s =
           emit (Log (loadedMessage themeId))
             (applyThemeClass themeId
                ((unloadTheme s)\<lparr>currentTheme := Some (inheritedTheme themeId),
                                 currentThemeId := Some themeId\<rparr>))
         \<and> loadTheme themeId s \<noteq> s\<lparr>trace := trace s @ [Warn (notFoundMessage themeId)]\<rparr>
         \<and> currentTheme (loadTheme themeId s) = Some (inheritedTheme themeId)
         \<and> currentThemeId (loadTheme themeId s) = Some themeId
         \<and> hookCalls (loadTheme themeId s) =
             hookCalls s @
             (case currentTheme s of
                None \<Rightarrow> []
              | Some old \<Rightarrow> if hasDestroy old then [HookDestroy old] else [])"
  using loadTheme_inherited [OF assms] by blast

theorem loadTheme_inherited_name_witness:
  "themeRegistry started ''constructor'' = None
   \<and> currentThemeId started = Some ''default''
   \<and> currentThemeId (loadTheme ''constructor'' started) = Some ''constructor''
   \<and> hookCalls (loadTheme ''constructor'' started) = hookCalls started @ [HookDestroy defaultTheme]
   \<and> trace (loadTheme ''constructor'' started) =
       trace started @
       [HookDestroy defaultTheme, ClassRemoved ''theme-default'', LinkRemoved 0,
        ClassAdded ''theme-constructor'', Log (loadedMessage ''constructor'')]
   \<and> body (loadTheme ''constructor'' started) = Some [''theme-constructor'']
   \<and> links (loadTheme ''constructor'' started) = []"
proof -
  have n: "themeRegistry started ''constructor'' = None"
    by code_simp
  have i: "''constructor'' \<in> set inheritedNames"
    by code_simp
  have c: "currentThemeId started = Some ''default''" "currentTheme started = Some defaultTheme"
      "hasDestroy defaultTheme"
    by code_simp+
  have t: "trace (loadTheme ''constructor'' started) =
       trace started @
       [HookDestroy defaultTheme, ClassRemoved ''theme-default'', LinkRemoved 0,
        ClassAdded ''theme-constructor'', Log (loadedMessage ''constructor'')]"
    by code_simp
  have b: "body (loadTheme ''constructor'' started) = Some [''theme-constructor'']"
      "links (loadTheme ''constructor'' started) = []"
    by code_simp+
  have h: "currentThemeId (loadTheme ''constructor'' started) = Some ''constructor''
      \<and> hookCalls (loadTheme ''constructor'' started) = hookCalls started @ [HookDestroy defaultTheme]"
    using loadTheme_inherited_name_replaces_active_theme
      [OF n i, THEN conjunct2, THEN conjunct2, THEN conjunct2] c
    by simp
  show ?thesis
    using h n c(1) t b by blast
qed

text \<open>
  The project's configuration file takes the theme to load at startup from the storage:
  \<^verbatim>\<open>localStorage.getItem('smartsearch-theme') || 'default'\<close>.
\<close>

definition startupThemeId :: "string option \<Rightarrow> string" where
  "startupThemeId stored =
     (case stored of None \<Rightarrow> ''default'' | Some v \<Rightarrow> if v \<noteq> [] then v else ''default'')"

text \<open>
  C10. \<^verbatim>\<open>switchTheme\<close> writes the requested id to the storage, and for an id that is not
  registered the activation that follows is meant to be a warning and nothing more, so that
  the active theme stays. For an unregistered id that is the name of a member the registry
  object inherits, the id is stored and the activation goes through with that member: the
  active theme's \<^verbatim>\<open>destroy\<close> hook runs when it has one and the member is the current
  theme, under the requested id, when \<^verbatim>\<open>switchTheme\<close> returns.
\<close>

theorem switchTheme_inherited_name_replaces_active_theme:
  assumes "themeStorageKey (config s) = Some key"
    and "themeRegistry s themeId = None" and "themeId \<in> set inheritedNames"
  shows "localStorage (switchTheme themeId s) key = Some themeId
         \<and> currentTheme (switchTheme themeId s) = Some (inheritedTheme themeId)
         \<and> currentThemeId (switchTheme themeId s) = Some themeId
         \<and> hookCalls (switchTheme themeId s) =
             hookCalls s @
             (case currentTheme s of
                None \<Rightarrow> []
              | Some old \<Rightarrow> if hasDestroy old then [HookDestroy old] else [])"
proof -
  let ?a = "switchTheme_store themeId s"
  let ?b = "loadTheme themeId ?a"
  have reg: "themeRegistry ?a themeId = None"
    using assms(2) by (simp add: switchTheme_store_frame)
  have ha: "hookCalls ?a = hookCalls s"
    by (simp add: switchTheme_store_def emit_def hookCalls_def split: option.splits)
  have ca: "currentTheme ?a = currentTheme s"
    by (simp add: switchTheme_store_frame)
  show ?thesis
    using switchTheme_stores_first(1) [OF assms(1), of themeId]
      loadTheme_inherited(2-4) [OF reg assms(3)] ha ca
    by (simp add: switchTheme_eq rerender_frame)
qed

theorem switchTheme_inherited_name_witness:
  "themeRegistry started ''constructor'' = None
   \<and> currentThemeId started = Some ''default''
   \<and> localStorage (switchTheme ''constructor'' started) ''smartsearch-theme'' = Some ''constructor''
   \<and> startupThemeId (localStorage (switchTheme ''constructor'' started) ''smartsearch-theme'')
       = ''constructor''
   \<and> currentThemeId (switchTheme ''constructor'' started) = Some ''constructor''
   \<and> hookCalls (switchTheme ''constructor'' started) = hookCalls started @ [HookDestroy defaultTheme]"
proof -
  have k: "themeStorageKey (config started) = Some ''smartsearch-theme''"
    by code_simp
  have n: "themeRegistry started ''constructor'' = None"
    by code_simp
  have i: "''constructor'' \<in> set inheritedNames"
    by code_simp
  have c: "currentThemeId started = Some ''default''" "currentTheme started = Some defaultTheme"
      "hasDestroy defaultTheme"
    by code_simp+
  show ?thesis
    using switchTheme_inherited_name_replaces_active_theme [OF k n i] n c
    by (simp add: startupThemeId_def)
qed

text \<open>
  After a switch with a held page the result container holds the cards of that page in the
  markup of the new theme.
\<close>

lemma switchTheme_results:
  assumes "findTheme (themeRegistry s) themeId = Some new" and "currentPage s = Some p"
    and "paginationEl s" and "searchResultsEl s = Some rs"
  shows "searchResultsEl (switchTheme themeId s) =
           Some (resultsMarkup (config s) (Some new) (hooked (config s) p))"
proof -
  let ?b = "loadTheme themeId (switchTheme_store themeId s)"
  have reg: "findTheme (themeRegistry (switchTheme_store themeId s)) themeId = Some new"
    using assms(1) by (simp add: switchTheme_store_frame)
  have st: "searchResultsEl (switchTheme_store themeId s) = searchResultsEl s"
      "paginationEl (switchTheme_store themeId s) = paginationEl s"
    by (simp_all add: switchTheme_store_def emit_def split: option.splits)
  have b: "currentPage ?b = Some p" "config ?b = config s" "currentTheme ?b = Some new"
      "paginationEl ?b" "searchResultsEl ?b = Some rs"
    using assms(2-4) loadTheme_current [OF reg] st
    by (simp_all add: loadTheme_frame switchTheme_store_frame)
  show ?thesis
    using b
    by (simp add: switchTheme_eq rerender_def renderSearchResults_eq renderAllFacets_frame)
qed

text \<open>
  C5. After a switch the facet container is meant to show the facets of the held page in
  the markup of the new theme. \<^verbatim>\<open>switchTheme\<close> calls \<^verbatim>\<open>renderAllFacets\<close> without
  \<^verbatim>\<open>initFacetContainer\<close>, which every other caller runs first to empty the container: the
  facets rendered under the previous theme stay, and the new theme's markup of every facet is
  appended after them.
\<close>

theorem switchTheme_appends_facets_to_old_markup:
  assumes "themeRegistry s themeId = Some new"
    and "currentPage s = Some p" and "facets p = Some fs" and "fs \<noteq> []"
    and "facetContainer s = Some es"
  shows "facetContainer (switchTheme themeId s) =
           Some (es @ map (\<lambda>f. facetMarkup (Some new) (facetToRender (config s) f)) fs)"
proof -
  let ?b = "loadTheme themeId (switchTheme_store themeId s)"
  have reg: "findTheme (themeRegistry (switchTheme_store themeId s)) themeId = Some new"
    using assms(1) by (simp add: switchTheme_store_frame findTheme_registered)
  have b: "currentPage ?b = Some p" "facetContainer ?b = Some es" "config ?b = config s"
      "currentTheme ?b = Some new"
    using assms(2,5) loadTheme_current [OF reg]
    by (simp_all add: loadTheme_frame switchTheme_store_frame)
  show ?thesis
    using b assms(3,4)
    by (simp add: switchTheme_eq rerender_def renderSearchResults_frame renderAllFacets_eq)
qed

theorem switchTheme_facets_witness:
  "facetContainer started = Some [BuiltInFacet (mimeFacet\<lparr>displayName := Some ''Filetype''\<rparr>)]
   \<and> facetContainer (switchTheme ''minimal'' started) =
       Some [BuiltInFacet (mimeFacet\<lparr>displayName := Some ''Filetype''\<rparr>),
             ThemeFacet minimalTheme (mimeFacet\<lparr>displayName := Some ''Filetype''\<rparr>) True]"
proof -
  have reg: "themeRegistry started ''minimal'' = Some minimalTheme"
    by code_simp
  have p: "currentPage started = Some firstPage" "facets firstPage = Some [mimeFacet]"
      "[mimeFacet] \<noteq> []"
    by code_simp+
  have c: "facetContainer started
             = Some [BuiltInFacet (mimeFacet\<lparr>displayName := Some ''Filetype''\<rparr>)]"
    by code_simp
  have m: "map (\<lambda>f. facetMarkup (Some minimalTheme) (facetToRender (config started) f)) [mimeFacet]
             = [ThemeFacet minimalTheme (mimeFacet\<lparr>displayName := Some ''Filetype''\<rparr>) True]"
    by code_simp
  show ?thesis
    using switchTheme_appends_facets_to_old_markup [OF reg p c] c m
    by simp
qed

fun isInit :: "event \<Rightarrow> bool" where
  "isInit (HookInit t) = True"
| "isInit e = False"

text \<open>
  C6, as stated: a second activation of the active theme is said to cause no further
  invocation of the activation hook. On a document with a body, the default theme's
  \<^verbatim>\<open>init\<close> has run once after the first activation and twice after the second.
\<close>

theorem second_activation_runs_init_again:
  "filter isInit (trace (loadTheme ''default'' newUI)) = [HookInit defaultTheme]
   \<and> filter isInit (trace (loadTheme ''default'' (loadTheme ''default'' newUI)))
       = [HookInit defaultTheme, HookInit defaultTheme]"
  by code_simp

lemma marker_once: "count_list (classAdd c (classRemove c cs)) c = 1"
proof -
  have "count_list (filter (\<lambda>x. x \<noteq> c) cs) c = 0"
    by (induction cs) auto
  moreover have "c \<notin> set (filter (\<lambda>x. x \<noteq> c) cs)"
    by simp
  ultimately show ?thesis
    by (simp add: classAdd_def classRemove_def)
qed

text \<open>
  C6, amended. Activating the active theme again, on a document with a body, deactivates
  it and activates it anew: its \<^verbatim>\<open>destroy\<close> hook runs and then its \<^verbatim>\<open>init\<close> hook runs once
  more. Afterwards the same theme is active under the same id, the document holds at most one
  stylesheet element for the id if it held at most one before, and the body carries the
  theme's marker class exactly once.
\<close>

theorem reactivation_keeps_one_sheet_and_reruns_hooks:
  assumes "themeRegistry s themeId = Some t"
    and "currentTheme s = Some t" and "currentThemeId s = Some themeId" and "themeId \<noteq> []"
    and "body s = Some cs"
  shows "hookCalls (loadTheme themeId s) =
           hookCalls s @ (if hasDestroy t then [HookDestroy t] else []) @
           (if hasInit t then [HookInit t] else [])
         \<and> currentTheme (loadTheme themeId s) = Some t
         \<and> currentThemeId (loadTheme themeId s) = Some themeId
         \<and> sheets themeId (loadTheme themeId s) \<le> max 1 (sheets themeId s)
         \<and> (\<exists>cs'. body (loadTheme themeId s) = Some cs'
               \<and> count_list cs' (themeClass themeId) = 1)"
proof -
  have u: "unmarked s = Some (classRemove (themeClass themeId) cs)"
    using assms(2-5) by (simp add: unmarked_def)
  have found: "findTheme (themeRegistry s) themeId = Some t"
    using assms(1) by (rule findTheme_registered)
  show ?thesis
    using loadTheme_hookCalls [OF found assms(5)] loadTheme_current [OF found]
      loadTheme_sheets [of themeId s] assms(2)
    by (simp add: loadTheme_body [OF found] u marker_once)
qed

theorem reactivation_witness:
  "hookCalls (loadTheme ''default'' (loadTheme ''default'' newUI)) =
     [HookInit defaultTheme, HookDestroy defaultTheme, HookInit defaultTheme]
   \<and> sheets ''default'' (loadTheme ''default'' (loadTheme ''default'' newUI)) \<le> 1
   \<and> currentThemeId (loadTheme ''default'' (loadTheme ''default'' newUI)) = Some ''default''"
proof -
  let ?s = "loadTheme ''default'' newUI"
  have s: "themeRegistry ?s ''default'' = Some defaultTheme" "currentTheme ?s = Some defaultTheme"
      "currentThemeId ?s = Some ''default''" "''default'' \<noteq> []" "body ?s = Some [''theme-default'']"
    by code_simp+
  have h: "hookCalls ?s = [HookInit defaultTheme]" "sheets ''default'' ?s = 1"
      "hasDestroy defaultTheme" "hasInit defaultTheme"
    by code_simp+
  show ?thesis
    using reactivation_keeps_one_sheet_and_reruns_hooks [OF s] h
    by simp
qed

section \<open>The held result page\<close>

lemma showPage_currentPage: "currentPage (showPage p s) = currentPage s"
  by (simp add: showPage_def emit_def renderSearchResults_frame renderAllFacets_frame
        initFacetContainer_def)

lemma filterDates_currentPage: "filterDates toISOString s = Inr s1 \<Longrightarrow> currentPage s1 = currentPage s"
  by (auto simp: filterDates_def emit_def isoOrThrow_def bindE_def
        split: if_splits option.splits sum.splits)

text \<open>
  C9. Every orchestrated action is meant to replace the held page by the page it received
  before rendering. Only \<^verbatim>\<open>initialize\<close> assigns \<^verbatim>\<open>this.currentPage\<close>: a facet filter, a page
  fetch and a facet reset render the page they received and leave the held page as it was,
  whatever the outcome of the call. A later \<^verbatim>\<open>switchTheme\<close> renders the page of the startup
  search again.
\<close>

theorem held_page_is_not_replaced:
  "currentPage (filter_ui toISOString facet reset response s) = currentPage s
   \<and> currentPage (paginationClick response s) = currentPage s
   \<and> currentPage (resetAllFacets response s) = currentPage s"
proof -
  have f: "currentPage (filter_ui toISOString facet reset response s) = currentPage s"
  proof (cases "filterDates toISOString s")
    case (Inl e)
    then show ?thesis by (simp add: filter_ui_def emit_def)
  next
    case (Inr s1)
    with filterDates_currentPage [OF Inr] show ?thesis
      by (cases response) (simp_all add: filter_ui_def emit_def scroll_def showPage_currentPage Let_def)
  qed
  have p: "currentPage (paginationClick response s) = currentPage s"
    by (cases response)
       (simp_all add: paginationClick_def scroll_def emit_def renderSearchResults_frame)
  have r: "currentPage (resetAllFacets response s) = currentPage s"
    by (cases response) (simp_all add: resetAllFacets_def emit_def showPage_currentPage Let_def)
  from f p r show ?thesis by blast
qed

theorem held_page_witness:
  "currentPage started = Some firstPage
   \<and> currentPage (filter_ui (\<lambda>d. Some d) mimeFacet False (Inr pdfPage) (started\<lparr>checked := [''pdf'']\<rparr>))
       = Some firstPage
   \<and> searchResultsEl (filter_ui (\<lambda>d. Some d) mimeFacet False (Inr pdfPage) (started\<lparr>checked := [''pdf'']\<rparr>))
       = Some [BuiltInCard (JObj [(''title'', JStr ''Manual'')]) (JObj [])]
   \<and> firstPage \<noteq> pdfPage"
proof -
  have a: "currentPage (started\<lparr>checked := [''pdf'']\<rparr>) = Some firstPage" "firstPage \<noteq> pdfPage"
    "currentPage started = Some firstPage"
    by code_simp+
  have b: "searchResultsEl (filter_ui (\<lambda>d. Some d) mimeFacet False (Inr pdfPage) (started\<lparr>checked := [''pdf'']\<rparr>))
       = Some [BuiltInCard (JObj [(''title'', JStr ''Manual'')]) (JObj [])]"
    by code_simp
  show ?thesis
    using held_page_is_not_replaced [of "\<lambda>d. Some d" mimeFacet False "Inr pdfPage"
        "started\<lparr>checked := [''pdf'']\<rparr>"] a b
    by simp
qed

end
